theory Spec2Isabelle
  imports Complex_Main "HOL-Library.Multiset" "HOL-Library.Product_Lexorder" "HOL-Library.Log_Nat"
begin

section \<open>Data model of the cohort-extraction notebooks\<close>

text \<open>
  Timestamps are pandas \<open>datetime64[ns]\<close> values: integers counting nanoseconds.
  A difference of two timestamps is a timedelta (again an integer of nanoseconds), and
  \<open>.dt.total_seconds()\<close> divides it by \<open>10^9\<close>. Measurement values are floating-point
  numbers in the notebooks; here a stored reading is an exact rational, and a missing
  value (NaN, NaT) is \<open>None\<close>. The quotient that a floating-point division stores is
  modelled with its rounding, overflow and underflow in the subsection on floating-point
  division. Identifiers are natural numbers.
\<close>

definition total_seconds :: "int \<Rightarrow> rat" where
  "total_seconds d = of_int d / 1000000000"

record patient =
  pat_subject_id :: nat
  anchor_age :: int
  anchor_year :: int
  gender :: string

record admission =
  adm_subject_id :: nat
  adm_hadm_id :: nat
  admittime :: int
  dischtime :: int
  admit_year :: int
  hospital_expire_flag :: nat

record icustay =
  icu_hadm_id :: nat
  icu_stay_id :: nat
  intime :: int
  outtime :: int

record chartevent =
  ce_stay_id :: nat
  ce_itemid :: nat
  ce_charttime :: int
  ce_valuenum :: "rat option"

record diagnosis =
  dx_hadm_id :: nat
  icd_code :: "string option"

record radiology_note =
  rad_note_id :: string
  rad_hadm_id :: "nat option"
  rad_charttime :: int
  rad_text :: "string option"

record tables =
  patients :: "patient list"
  admissions :: "admission list"
  icustays :: "icustay list"
  chartevents :: "chartevent list"
  diagnoses :: "diagnosis list"
  radiology :: "radiology_note list"

subsection \<open>Data-frame operations used by the notebooks\<close>

text \<open>
  \<open>left.merge(right, on=key, how='inner')\<close>: one output row per matching pair, in the
  order of the left rows. \<open>how='left'\<close> keeps a left row without a match, with the right
  columns missing.
\<close>

definition merge_inner :: "('a \<Rightarrow> 'k) \<Rightarrow> ('b \<Rightarrow> 'k) \<Rightarrow> 'a list \<Rightarrow> 'b list \<Rightarrow> ('a \<times> 'b) list" where
  "merge_inner ka kb xs ys =
     concat (map (\<lambda>x. map (\<lambda>y. (x, y)) (filter (\<lambda>y. kb y = ka x) ys)) xs)"

definition merge_left :: "('a \<Rightarrow> 'k) \<Rightarrow> ('b \<Rightarrow> 'k) \<Rightarrow> 'a list \<Rightarrow> 'b list \<Rightarrow> ('a \<times> 'b option) list" where
  "merge_left ka kb xs ys =
     concat (map (\<lambda>x. case filter (\<lambda>y. kb y = ka x) ys of
                          [] \<Rightarrow> [(x, None)]
                        | ms \<Rightarrow> map (\<lambda>y. (x, Some y)) ms) xs)"

text \<open>The sorted distinct keys of a \<open>groupby\<close> (or of a pivot's index).\<close>

definition group_keys :: "('a \<Rightarrow> 'k::linorder) \<Rightarrow> 'a list \<Rightarrow> 'k list" where
  "group_keys k xs = sort (remdups (map k xs))"

text \<open>Aggregations \<open>'min'\<close> and \<open>'first'\<close> over the rows of one group.\<close>

fun agg_min :: "'v::linorder list \<Rightarrow> 'v option" where
  "agg_min [] = None"
| "agg_min (x # xs) = (case agg_min xs of None \<Rightarrow> Some x | Some m \<Rightarrow> Some (min x m))"

fun agg_first :: "'v list \<Rightarrow> 'v option" where
  "agg_first [] = None"
| "agg_first (x # xs) = Some x"

subsection \<open>Floating-point division\<close>





text \<open>\<open>pow2 e\<close> is \<open>2^e\<close> for an integer exponent, and \<open>ilog2 x\<close> the exponent of the
  leading bit of a positive rational: \<open>2^(ilog2 x) \<le> x < 2^(ilog2 x + 1)\<close>.\<close>

definition pow2 :: "int \<Rightarrow> rat" where
  "pow2 e = (if e \<ge> 0 then 2 ^ nat e else 1 / 2 ^ nat (- e))"

definition ilog2 :: "rat \<Rightarrow> int" where
  "ilog2 x = (if 1 \<le> x then bitlen \<lfloor>x\<rfloor> - 1 else - bitlen (\<lceil>1 / x\<rceil> - 1))"









section \<open>Cohort definition (optimized notebook)\<close>

subsection \<open>Step 1: adults with ICU stays\<close>

record patient_data_row =
  pd_adm :: admission
  pd_pat :: "patient option"

definition patient_data :: "tables \<Rightarrow> patient_data_row list" where
  "patient_data T =
     map (\<lambda>(a, p). \<lparr>pd_adm = a, pd_pat = p\<rparr>)
       (merge_left adm_subject_id pat_subject_id (admissions T) (patients T))"

definition age_at_admission :: "patient_data_row \<Rightarrow> int option" where
  "age_at_admission r =
     map_option (\<lambda>p. anchor_age p + (admit_year (pd_adm r) - anchor_year p)) (pd_pat r)"

text \<open>A comparison with a missing value is false.\<close>

definition adult_admissions :: "tables \<Rightarrow> patient_data_row list" where
  "adult_admissions T =
     filter (\<lambda>r. case age_at_admission r of None \<Rightarrow> False | Some a \<Rightarrow> a \<ge> 18) (patient_data T)"

definition adult_icu_admissions :: "tables \<Rightarrow> (patient_data_row \<times> icustay) list" where
  "adult_icu_admissions T =
     merge_inner (\<lambda>r. adm_hadm_id (pd_adm r)) icu_hadm_id (adult_admissions T) (icustays T)"

definition row_hadm_id :: "patient_data_row \<times> icustay \<Rightarrow> nat" where
  "row_hadm_id r = adm_hadm_id (pd_adm (fst r))"

definition row_stay_id :: "patient_data_row \<times> icustay \<Rightarrow> nat" where
  "row_stay_id r = icu_stay_id (snd r)"

subsection \<open>Step 2: ventilation parameters\<close>

definition PEEP_ITEMIDS :: "nat list" where
  "PEEP_ITEMIDS = [220339, 224700, 224699]"

definition SPO2_ITEMIDS :: "nat list" where
  "SPO2_ITEMIDS = [220277, 224696]"

definition FIO2_ITEMIDS :: "nat list" where
  "FIO2_ITEMIDS = [220210, 223835]"

definition ALL_VENT_ITEMIDS :: "nat list" where
  "ALL_VENT_ITEMIDS = PEEP_ITEMIDS @ SPO2_ITEMIDS @ FIO2_ITEMIDS"

datatype param_type = Unknown | Peep | Spo2 | Fio2 | Fio2_percent | Fio2_fraction | Pao2 | Pf_ratio

text \<open>
  The column starts as \<open>'unknown'\<close> and is overwritten for PEEP, then SpO2, then FiO2
  item identifiers: the last assignment that applies wins.
\<close>

definition classify_param :: "nat \<Rightarrow> param_type" where
  "classify_param i =
     (if i \<in> set FIO2_ITEMIDS then Fio2
      else if i \<in> set SPO2_ITEMIDS then Spo2
      else if i \<in> set PEEP_ITEMIDS then Peep
      else Unknown)"

record vent_row =
  v_stay_id :: nat
  v_itemid :: nat
  v_charttime :: int
  v_valuenum :: rat
  v_param_type :: param_type
  v_hadm_id :: "nat option"
  v_intime :: "int option"

definition target_stay_ids :: "tables \<Rightarrow> nat set" where
  "target_stay_ids T = set (map row_stay_id (adult_icu_admissions T))"

text \<open>Rows of \<open>chartevents\<close> for the target stays and items whose value is present.\<close>

definition vent_events :: "tables \<Rightarrow> (chartevent \<times> rat) list" where
  "vent_events T =
     concat (map (\<lambda>e. case ce_valuenum e of
                          None \<Rightarrow> []
                        | Some v \<Rightarrow>
                            if ce_stay_id e \<in> target_stay_ids T \<and> ce_itemid e \<in> set ALL_VENT_ITEMIDS
                            then [(e, v)] else [])
                 (chartevents T))"

definition mk_vent_row :: "chartevent \<Rightarrow> rat \<Rightarrow> (patient_data_row \<times> icustay) option \<Rightarrow> vent_row" where
  "mk_vent_row e v m =
     \<lparr>v_stay_id = ce_stay_id e, v_itemid = ce_itemid e, v_charttime = ce_charttime e,
      v_valuenum = v, v_param_type = classify_param (ce_itemid e),
      v_hadm_id = map_option row_hadm_id m,
      v_intime = map_option (\<lambda>r. intime (snd r)) m\<rparr>"

definition vent_data :: "tables \<Rightarrow> vent_row list" where
  "vent_data T =
     map (\<lambda>((e, v), m). mk_vent_row e v m)
       (merge_left (\<lambda>(e, v). ce_stay_id e) row_stay_id (vent_events T) (adult_icu_admissions T))"

definition hours_from_icu :: "vent_row \<Rightarrow> rat option" where
  "hours_from_icu r = map_option (\<lambda>t. total_seconds (v_charttime r - t) / 3600) (v_intime r)"

subsection \<open>Step 3: PEEP of at least 5 in the first 48 hours\<close>

definition peep_mask :: "vent_row \<Rightarrow> bool" where
  "peep_mask r =
     (v_param_type r = Peep \<and>
      (case hours_from_icu r of None \<Rightarrow> False | Some h \<Rightarrow> h \<ge> 0 \<and> h \<le> 48) \<and>
      v_valuenum r \<ge> 5)"

definition peep_qualifying :: "tables \<Rightarrow> vent_row list" where
  "peep_qualifying T = filter peep_mask (vent_data T)"

definition peep_qualifying_admissions :: "tables \<Rightarrow> nat set" where
  "peep_qualifying_admissions T = set (List.map_filter v_hadm_id (peep_qualifying T))"

definition cohort_peep_qualified :: "tables \<Rightarrow> (patient_data_row \<times> icustay) list" where
  "cohort_peep_qualified T =
     filter (\<lambda>r. row_hadm_id r \<in> peep_qualifying_admissions T) (adult_icu_admissions T)"

definition vent_data_filtered :: "tables \<Rightarrow> vent_row list" where
  "vent_data_filtered T =
     filter (\<lambda>r. case v_hadm_id r of None \<Rightarrow> False | Some h \<Rightarrow> h \<in> peep_qualifying_admissions T)
       (vent_data T)"

subsection \<open>Step 4: S/F ratios by the pivot method, threshold below 315\<close>

definition spo2_fio2_data :: "tables \<Rightarrow> vent_row list" where
  "spo2_fio2_data T =
     filter (\<lambda>r. v_param_type r \<in> {Spo2, Fio2}) (vent_data_filtered T)"

text \<open>FiO2 values above 1 are read as percentages and divided by 100.\<close>

definition fio2_mask :: "vent_row \<Rightarrow> bool" where
  "fio2_mask r = (v_param_type r = Fio2 \<and> v_valuenum r > 1)"

definition convert_fio2 :: "vent_row \<Rightarrow> vent_row" where
  "convert_fio2 r = (if fio2_mask r then r\<lparr>v_valuenum := v_valuenum r / 100\<rparr> else r)"

text \<open>
  \<open>pivot_table(index=..., columns='param_type', values='valuenum', aggfunc='first')\<close>:
  one row per index key (rows with a missing key are dropped), sorted by key; each
  column holds the first value of that parameter at that key, if any.
\<close>

record 'k sf_pivot_row =
  sp_key :: 'k
  sp_spo2 :: "rat option"
  sp_fio2 :: "rat option"

definition pivot_first :: "(vent_row \<Rightarrow> 'k option) \<Rightarrow> param_type \<Rightarrow> 'k \<Rightarrow> vent_row list \<Rightarrow> rat option" where
  "pivot_first key p k rows =
     agg_first (map v_valuenum (filter (\<lambda>r. v_param_type r = p \<and> key r = Some k) rows))"

definition pivot_table :: "(vent_row \<Rightarrow> ('k::linorder) option) \<Rightarrow> vent_row list \<Rightarrow> 'k sf_pivot_row list" where
  "pivot_table key rows =
     map (\<lambda>k. \<lparr>sp_key = k, sp_spo2 = pivot_first key Spo2 k rows,
                sp_fio2 = pivot_first key Fio2 k rows\<rparr>)
       (group_keys id (List.map_filter key rows))"

record 'k sf_ratio_row =
  sr_key :: 'k
  sr_spo2 :: rat
  sr_fio2 :: rat
  sf_ratio :: rat

text \<open>
  Rows where both measurements exist, then rows with a positive FiO2, then the ratio.
  The field \<open>sf_ratio\<close> is the exact quotient of the two values; the value that the
  \<open>float32\<close> column holds is \<open>sf_ratio_float32\<close>, the quotient as the division stores it.
\<close>

definition sf_ratios_of :: "'k sf_pivot_row list \<Rightarrow> 'k sf_ratio_row list" where
  "sf_ratios_of pv =
     concat (map (\<lambda>p. case (sp_spo2 p, sp_fio2 p) of
                          (Some s, Some f) \<Rightarrow>
                            if f > 0
                            then [\<lparr>sr_key = sp_key p, sr_spo2 = s, sr_fio2 = f, sf_ratio = s / f\<rparr>]
                            else []
                        | _ \<Rightarrow> []) pv)"


definition hadm_charttime_key :: "vent_row \<Rightarrow> (nat \<times> int) option" where
  "hadm_charttime_key r = map_option (\<lambda>h. (h, v_charttime r)) (v_hadm_id r)"

definition sf_pivot :: "tables \<Rightarrow> (nat \<times> int) sf_pivot_row list" where
  "sf_pivot T = pivot_table hadm_charttime_key (map convert_fio2 (spo2_fio2_data T))"

definition sf_ratios :: "tables \<Rightarrow> (nat \<times> int) sf_ratio_row list" where
  "sf_ratios T = sf_ratios_of (sf_pivot T)"

definition low_sf_ratios :: "tables \<Rightarrow> (nat \<times> int) sf_ratio_row list" where
  "low_sf_ratios T = filter (\<lambda>r. sf_ratio r < 315) (sf_ratios T)"

definition sf_qualifying_admissions :: "tables \<Rightarrow> nat set" where
  "sf_qualifying_admissions T = set (map (\<lambda>r. fst (sr_key r)) (low_sf_ratios T))"

definition final_qualifying_admissions :: "tables \<Rightarrow> nat set" where
  "final_qualifying_admissions T =
     (if length (spo2_fio2_data T) > 0
      then peep_qualifying_admissions T \<inter> sf_qualifying_admissions T
      else {})"

subsection \<open>Step 5: exclusions (heart failure, pregnancy) and radiology reports\<close>

definition digit_char :: "nat \<Rightarrow> char" where
  "digit_char d = ''0123456789'' ! d"

fun str :: "nat \<Rightarrow> string" where
  "str n = (if n < 10 then [digit_char n] else str (n div 10) @ [digit_char (n mod 10)])"

definition startswith :: "string \<Rightarrow> string \<Rightarrow> bool" where
  "startswith s p = (take (length p) s = p)"

definition hf_codes :: "string list" where
  "hf_codes = map str [4280..<4290] @ [''I50''] @ map (\<lambda>x. ''I50'' @ str x) [0..<10]"

text \<open>A missing code matches nothing (\<open>na=False\<close>).\<close>

definition hf_mask :: "diagnosis \<Rightarrow> bool" where
  "hf_mask d = (case icd_code d of None \<Rightarrow> False | Some c \<Rightarrow> \<exists>p \<in> set hf_codes. startswith c p)"

definition hf_admissions :: "tables \<Rightarrow> nat set" where
  "hf_admissions T = set (map dx_hadm_id (filter hf_mask (diagnoses T)))"

definition pregnancy_mask :: "diagnosis \<Rightarrow> bool" where
  "pregnancy_mask d =
     (case icd_code d of
        None \<Rightarrow> False
      | Some c \<Rightarrow> take 3 c \<in> set (map str [630..<680]) \<or> startswith c ''O'')"

definition pregnancy_admissions :: "tables \<Rightarrow> nat set" where
  "pregnancy_admissions T = set (map dx_hadm_id (filter pregnancy_mask (diagnoses T)))"

definition excluded_admissions :: "tables \<Rightarrow> nat set" where
  "excluded_admissions T = hf_admissions T \<union> pregnancy_admissions T"

definition final_cohort_admissions :: "tables \<Rightarrow> nat set" where
  "final_cohort_admissions T =
     (if final_qualifying_admissions T \<noteq> {}
      then final_qualifying_admissions T - excluded_admissions T
      else {})"

definition radiology_admissions :: "tables \<Rightarrow> nat set" where
  "radiology_admissions T = set (List.map_filter rad_hadm_id (radiology T))"

definition final_cohort_admissions_w_reports :: "tables \<Rightarrow> nat set" where
  "final_cohort_admissions_w_reports T =
     (if final_cohort_admissions T \<noteq> {}
      then final_cohort_admissions T \<inter> radiology_admissions T
      else {})"

subsection \<open>Step 7: the final cohort\<close>

text \<open>
  \<open>pd.DataFrame()\<close> is a frame without rows and without columns: its length is 0 and
  reading any column of it raises \<open>KeyError\<close>.
\<close>

datatype 'r frame = DataFrame_empty | Frame "'r list"

datatype error = KeyError | NameError | ValueError

fun len :: "'r frame \<Rightarrow> nat" where
  "len DataFrame_empty = 0"
| "len (Frame rs) = length rs"

fun columns_of :: "'r frame \<Rightarrow> error + 'r list" where
  "columns_of DataFrame_empty = Inl KeyError"
| "columns_of (Frame rs) = Inr rs"

record final_cohort_row =
  fc_row :: "patient_data_row \<times> icustay"
  admission_dttm :: int
  discharge_dttm :: int
  mortality :: nat
  icu_los_days :: rat
  excluded_hf :: bool
  excluded_pregnancy :: bool

definition final_cohort_of :: "tables \<Rightarrow> patient_data_row \<times> icustay \<Rightarrow> final_cohort_row" where
  "final_cohort_of T r =
     \<lparr>fc_row = r,
      admission_dttm = admittime (pd_adm (fst r)),
      discharge_dttm = dischtime (pd_adm (fst r)),
      mortality = hospital_expire_flag (pd_adm (fst r)),
      icu_los_days = total_seconds (outtime (snd r) - intime (snd r)) / (24 * 3600),
      excluded_hf = (row_hadm_id r \<in> hf_admissions T),
      excluded_pregnancy = (row_hadm_id r \<in> pregnancy_admissions T)\<rparr>"

definition final_cohort :: "tables \<Rightarrow> final_cohort_row frame" where
  "final_cohort T =
     (if final_cohort_admissions_w_reports T \<noteq> {}
      then Frame (map (final_cohort_of T)
                    (filter (\<lambda>r. row_hadm_id r \<in> final_cohort_admissions_w_reports T)
                       (adult_icu_admissions T)))
      else DataFrame_empty)"

subsection \<open>Steps 8 and 9: duplicate check, summary statistics, save\<close>

text \<open>
  Each of these cells reads columns of \<open>final_cohort\<close> only under the guard
  \<open>if len(final_cohort) > 0\<close>; the summary and the save are skipped otherwise.
\<close>

definition check_duplicates :: "final_cohort_row frame \<Rightarrow> error + (nat list \<times> nat list)" where
  "check_duplicates fc =
     (if len fc > 0
      then (case columns_of fc of
              Inl e \<Rightarrow> Inl e
            | Inr rs \<Rightarrow>
                Inr (remdups (filter (\<lambda>s. length (filter (\<lambda>r. row_stay_id (fc_row r) = s) rs) > 1)
                                (map (\<lambda>r. row_stay_id (fc_row r)) rs)),
                     remdups (filter (\<lambda>h. length (filter (\<lambda>r. row_hadm_id (fc_row r) = h) rs) > 1)
                                (map (\<lambda>r. row_hadm_id (fc_row r)) rs))))
      else Inr ([], []))"

record summary_stats =
  total_admissions :: nat
  unique_patients :: nat
  deaths :: nat

definition summary_statistics :: "final_cohort_row frame \<Rightarrow> error + summary_stats option" where
  "summary_statistics fc =
     (if len fc > 0
      then (case columns_of fc of
              Inl e \<Rightarrow> Inl e
            | Inr rs \<Rightarrow>
                Inr (Some \<lparr>total_admissions = length rs,
                           unique_patients =
                             length (remdups (map (\<lambda>r. adm_subject_id (pd_adm (fst (fc_row r)))) rs)),
                           deaths = sum_list (map mortality rs)\<rparr>))
      else Inr None)"

definition save_cohort :: "final_cohort_row frame \<Rightarrow> error + final_cohort_row list option" where
  "save_cohort fc =
     (if len fc > 0
      then (case columns_of fc of Inl e \<Rightarrow> Inl e | Inr rs \<Rightarrow> Inr (Some rs))
      else Inr None)"

record cohort_run =
  run_final_cohort :: "final_cohort_row frame"
  run_summary :: "summary_stats option"
  run_saved :: "final_cohort_row list option"

text \<open>The notebook from its first cell to its last: an error in a cell stops the run.\<close>

definition cohort_definition :: "tables \<Rightarrow> error + cohort_run" where
  "cohort_definition T =
     (case check_duplicates (final_cohort T) of
        Inl e \<Rightarrow> Inl e
      | Inr _ \<Rightarrow>
          (case summary_statistics (final_cohort T) of
             Inl e \<Rightarrow> Inl e
           | Inr st \<Rightarrow>
               (case save_cohort (final_cohort T) of
                  Inl e \<Rightarrow> Inl e
                | Inr sv \<Rightarrow>
                    Inr \<lparr>run_final_cohort = final_cohort T, run_summary = st, run_saved = sv\<rparr>)))"

text \<open>The identifier sets of the two stages of step 1: adult admissions, admissions with a stay.\<close>

definition adult_admission_ids :: "tables \<Rightarrow> nat set" where
  "adult_admission_ids T = set (map (\<lambda>r. adm_hadm_id (pd_adm r)) (adult_admissions T))"

definition icu_admission_ids :: "tables \<Rightarrow> nat set" where
  "icu_admission_ids T = set (map icu_hadm_id (icustays T))"

subsection \<open>Composition of the stages, in the words of the specification\<close>

text \<open>
  The specification describes the final qualifying set as the inclusion-stage sets
  intersected and the exclusion-stage sets subtracted, in any order of evaluation.
  \<open>spec_run_stages\<close> applies a list of stages one after the other, starting from all
  identifiers; it is compared with the notebook's own sequence of set operations.
\<close>

datatype spec_stage = Include "nat set" | Exclude "nat set"

fun spec_apply_stage :: "nat set \<Rightarrow> spec_stage \<Rightarrow> nat set" where
  "spec_apply_stage X (Include S) = X \<inter> S"
| "spec_apply_stage X (Exclude S) = X - S"

definition spec_run_stages :: "spec_stage list \<Rightarrow> nat set" where
  "spec_run_stages stages = foldl spec_apply_stage UNIV stages"

section \<open>Cohort definition (first notebook)\<close>

text \<open>
  The first notebook matches each SpO2 reading to the nearest FiO2 reading of the same
  admission within two hours with pandas' \<open>merge_asof\<close>. The merged frame is taken as
  given: one row per SpO2 reading, with the matched FiO2 value or none. Rows without a
  match are dropped, then rows whose FiO2 is not positive, then the ratio is computed.
\<close>

record asof_row =
  as_hadm_id :: nat
  as_charttime :: int
  valuenum_spo2 :: rat
  valuenum_fio2 :: "rat option"

definition sf_ratios_asof :: "asof_row list \<Rightarrow> (nat \<times> int) sf_ratio_row list" where
  "sf_ratios_asof merged =
     concat (map (\<lambda>m. case valuenum_fio2 m of
                          None \<Rightarrow> []
                        | Some f \<Rightarrow>
                            if f > 0
                            then [\<lparr>sr_key = (as_hadm_id m, as_charttime m), sr_spo2 = valuenum_spo2 m,
                                   sr_fio2 = f, sf_ratio = valuenum_spo2 m / f\<rparr>]
                            else []) merged)"


text \<open>
  The first notebook keeps one ICU stay per admission before joining:
  \<open>icustays[...].drop_duplicates(['hadm_id'])\<close> keeps the first row of each admission.
\<close>

fun drop_duplicates :: "('a \<Rightarrow> 'k) \<Rightarrow> 'a list \<Rightarrow> 'a list" where
  "drop_duplicates k [] = []"
| "drop_duplicates k (x # xs) = x # drop_duplicates k (filter (\<lambda>y. k y \<noteq> k x) xs)"

definition admissions_with_icu :: "tables \<Rightarrow> (patient_data_row \<times> icustay) list" where
  "admissions_with_icu T =
     merge_inner (\<lambda>r. adm_hadm_id (pd_adm r)) icu_hadm_id (adult_admissions T)
       (drop_duplicates icu_hadm_id (icustays T))"

text \<open>
  The chart events of the cohort's stays, joined to all stays of the cohort's admissions
  (an inner join on the stay identifier), and the PEEP filter on them.
\<close>

definition cohort_icustays :: "tables \<Rightarrow> icustay list" where
  "cohort_icustays T =
     filter (\<lambda>s. icu_hadm_id s \<in> set (map row_hadm_id (admissions_with_icu T))) (icustays T)"

definition cohort_stay_ids :: "tables \<Rightarrow> nat set" where
  "cohort_stay_ids T = set (map icu_stay_id (cohort_icustays T))"

definition cohort_events :: "tables \<Rightarrow> (chartevent \<times> rat) list" where
  "cohort_events T =
     concat (map (\<lambda>e. case ce_valuenum e of
                          None \<Rightarrow> []
                        | Some v \<Rightarrow>
                            if ce_stay_id e \<in> cohort_stay_ids T \<and> ce_itemid e \<in> set ALL_VENT_ITEMIDS
                            then [(e, v)] else [])
                 (chartevents T))"

definition mk_cohort_row :: "chartevent \<Rightarrow> rat \<Rightarrow> icustay \<Rightarrow> vent_row" where
  "mk_cohort_row e v s =
     \<lparr>v_stay_id = ce_stay_id e, v_itemid = ce_itemid e, v_charttime = ce_charttime e,
      v_valuenum = v, v_param_type = classify_param (ce_itemid e),
      v_hadm_id = Some (icu_hadm_id s), v_intime = Some (intime s)\<rparr>"

definition cohort_data :: "tables \<Rightarrow> vent_row list" where
  "cohort_data T =
     map (\<lambda>((e, v), s). mk_cohort_row e v s)
       (merge_inner (\<lambda>(e, v). ce_stay_id e) icu_stay_id (cohort_events T) (cohort_icustays T))"

definition peep_first_48h :: "tables \<Rightarrow> vent_row list" where
  "peep_first_48h T = filter peep_mask (cohort_data T)"

definition admissions_with_peep :: "tables \<Rightarrow> nat set" where
  "admissions_with_peep T = set (List.map_filter v_hadm_id (peep_first_48h T))"

definition cohort_data_peep :: "tables \<Rightarrow> vent_row list" where
  "cohort_data_peep T =
     filter (\<lambda>r. case v_hadm_id r of None \<Rightarrow> False | Some h \<Rightarrow> h \<in> admissions_with_peep T)
       (cohort_data T)"

definition spo2_data_v1 :: "tables \<Rightarrow> vent_row list" where
  "spo2_data_v1 T = filter (\<lambda>r. v_param_type r = Spo2) (cohort_data_peep T)"

definition fio2_data_v1 :: "tables \<Rightarrow> vent_row list" where
  "fio2_data_v1 T = filter (\<lambda>r. v_param_type r = Fio2) (cohort_data_peep T)"

text \<open>On the FiO2 rows, values above 1 are divided by 100.\<close>

definition fio2_to_fraction :: "vent_row \<Rightarrow> vent_row" where
  "fio2_to_fraction r = (if v_valuenum r > 1 then r\<lparr>v_valuenum := v_valuenum r / 100\<rparr> else r)"

text \<open>
  The parameter \<open>asof\<close> stands for the sort of both frames by admission and time
  followed by \<open>merge_asof\<close>, which pairs each SpO2 row with the nearest FiO2 row of
  the same admission within two hours, or raises. The frames after the ventilation
  criteria, the radiology filter and the exclusions follow; each later cell works under
  the guard \<open>len(...) > 0\<close> and gives \<open>pd.DataFrame()\<close> otherwise.
\<close>

type_synonym merge_asof = "vent_row list \<Rightarrow> vent_row list \<Rightarrow> error + asof_row list"

definition admissions_with_low_sf :: "asof_row list \<Rightarrow> nat set" where
  "admissions_with_low_sf merged =
     set (map (\<lambda>r. fst (sr_key r)) (filter (\<lambda>r. sf_ratio r < 315) (sf_ratios_asof merged)))"

definition qualifying_admissions :: "tables \<Rightarrow> asof_row list \<Rightarrow> nat set" where
  "qualifying_admissions T merged = admissions_with_peep T \<inter> admissions_with_low_sf merged"

definition cohort_with_criteria ::
  "merge_asof \<Rightarrow> tables \<Rightarrow> error + (patient_data_row \<times> icustay) frame" where
  "cohort_with_criteria asof T =
     (if length (spo2_data_v1 T) > 0 \<and> length (fio2_data_v1 T) > 0
      then (case asof (spo2_data_v1 T) (map fio2_to_fraction (fio2_data_v1 T)) of
              Inl e \<Rightarrow> Inl e
            | Inr merged \<Rightarrow>
                Inr (Frame (filter (\<lambda>r. row_hadm_id r \<in> qualifying_admissions T merged)
                              (admissions_with_icu T))))
      else Inr DataFrame_empty)"

definition admissions_with_radiology :: "tables \<Rightarrow> nat set" where
  "admissions_with_radiology T = set (List.map_filter rad_hadm_id (radiology T))"

definition cohort_with_radiology ::
  "tables \<Rightarrow> (patient_data_row \<times> icustay) frame \<Rightarrow> error + (patient_data_row \<times> icustay) frame" where
  "cohort_with_radiology T cwc =
     (if len cwc > 0
      then (case columns_of cwc of
              Inl e \<Rightarrow> Inl e
            | Inr rs \<Rightarrow> Inr (Frame (filter (\<lambda>r. row_hadm_id r \<in> admissions_with_radiology T) rs)))
      else Inr DataFrame_empty)"

text \<open>
  The heart-failure and pregnancy code tests of this notebook are those of the optimized
  one on codes that are present.
\<close>

definition final_cohort_v1 ::
  "tables \<Rightarrow> (patient_data_row \<times> icustay) frame \<Rightarrow> error + (patient_data_row \<times> icustay) frame" where
  "final_cohort_v1 T cwr =
     (if len cwr > 0
      then (case columns_of cwr of
              Inl e \<Rightarrow> Inl e
            | Inr rs \<Rightarrow>
                Inr (Frame (filter (\<lambda>r. \<not> (row_hadm_id r \<in> hf_admissions T) \<and>
                                         \<not> (row_hadm_id r \<in> pregnancy_admissions T)) rs)))
      else Inr DataFrame_empty)"

text \<open>
  \<open>cohort_definition_v1\<close> is the chain of the cells that assign the frames from
  \<open>admissions_with_icu\<close> to \<open>final_cohort\<close> (cells 5, 6, 8, 10 and 13), one after the
  other. The notebook holds more cells: cell 12, between the radiology cell and the
  exclusion cell, reads \<open>cohort_with_sf\<close>, and cells 15 to 20 read \<open>cohort_with_vent\<close>;
  neither name is assigned anywhere. Run in order, the notebook therefore stops at cell
  12 with \<open>NameError\<close>, whatever the inputs, unless an earlier cell has raised:
  \<open>cohort_definition_v1_run_all\<close>.
\<close>

definition cohort_definition_v1 ::
  "merge_asof \<Rightarrow> tables \<Rightarrow> error + (patient_data_row \<times> icustay) frame" where
  "cohort_definition_v1 asof T =
     (case cohort_with_criteria asof T of
        Inl e \<Rightarrow> Inl e
      | Inr cwc \<Rightarrow>
          (case cohort_with_radiology T cwc of
             Inl e \<Rightarrow> Inl e
           | Inr cwr \<Rightarrow> final_cohort_v1 T cwr))"

definition cohort_definition_v1_run_all ::
  "merge_asof \<Rightarrow> tables \<Rightarrow> error + (patient_data_row \<times> icustay) frame" where
  "cohort_definition_v1_run_all asof T =
     (case cohort_with_criteria asof T of
        Inl e \<Rightarrow> Inl e
      | Inr cwc \<Rightarrow>
          (case cohort_with_radiology T cwc of
             Inl e \<Rightarrow> Inl e
           | Inr cwr \<Rightarrow> Inl NameError))"

section \<open>ARDS identification (optimized notebook)\<close>

text \<open>
  The base cohort is the saved cohort of the optimized cohort notebook. The free-text
  classifier of radiology reports is a parameter \<open>detect\<close>: given a report's text (or
  none) it answers whether bilateral infiltrates are present.
\<close>

subsection \<open>Step 2: S/F ratios within 60 minutes of ICU admission\<close>

definition SF_ITEMIDS :: "nat list" where
  "SF_ITEMIDS = SPO2_ITEMIDS @ FIO2_ITEMIDS"

definition classify_sf :: "nat \<Rightarrow> param_type" where
  "classify_sf i =
     (if i \<in> set FIO2_ITEMIDS then Fio2
      else if i \<in> set SPO2_ITEMIDS then Spo2
      else Unknown)"

definition base_stay_id :: "final_cohort_row \<Rightarrow> nat" where
  "base_stay_id b = row_stay_id (fc_row b)"

definition base_hadm_id :: "final_cohort_row \<Rightarrow> nat" where
  "base_hadm_id b = row_hadm_id (fc_row b)"

definition base_intime :: "final_cohort_row \<Rightarrow> int" where
  "base_intime b = intime (snd (fc_row b))"

definition sf_events :: "final_cohort_row list \<Rightarrow> chartevent list \<Rightarrow> (chartevent \<times> rat) list" where
  "sf_events base ce =
     concat (map (\<lambda>e. case ce_valuenum e of
                          None \<Rightarrow> []
                        | Some v \<Rightarrow>
                            if ce_stay_id e \<in> set (map base_stay_id base) \<and> ce_itemid e \<in> set SF_ITEMIDS
                            then [(e, v)] else [])
                 ce)"

definition mk_sf_row :: "chartevent \<Rightarrow> rat \<Rightarrow> final_cohort_row option \<Rightarrow> vent_row" where
  "mk_sf_row e v m =
     \<lparr>v_stay_id = ce_stay_id e, v_itemid = ce_itemid e, v_charttime = ce_charttime e,
      v_valuenum = v, v_param_type = classify_sf (ce_itemid e),
      v_hadm_id = map_option base_hadm_id m,
      v_intime = map_option base_intime m\<rparr>"

definition sf_data :: "final_cohort_row list \<Rightarrow> chartevent list \<Rightarrow> vent_row list" where
  "sf_data base ce =
     map (\<lambda>((e, v), m). mk_sf_row e v m)
       (merge_left (\<lambda>(e, v). ce_stay_id e) base_stay_id (sf_events base ce) base)"

definition minutes_from_icu :: "vent_row \<Rightarrow> rat option" where
  "minutes_from_icu r = map_option (\<lambda>t. total_seconds (v_charttime r - t) / 60) (v_intime r)"

definition sf_data_60min :: "final_cohort_row list \<Rightarrow> chartevent list \<Rightarrow> vent_row list" where
  "sf_data_60min base ce =
     filter (\<lambda>r. case minutes_from_icu r of None \<Rightarrow> False | Some m \<Rightarrow> m \<ge> 0 \<and> m \<le> 60)
       (sf_data base ce)"

definition spo2_data :: "final_cohort_row list \<Rightarrow> chartevent list \<Rightarrow> vent_row list" where
  "spo2_data base ce = filter (\<lambda>r. v_param_type r = Spo2) (sf_data_60min base ce)"

definition fio2_data :: "final_cohort_row list \<Rightarrow> chartevent list \<Rightarrow> vent_row list" where
  "fio2_data base ce = filter (\<lambda>r. v_param_type r = Fio2) (sf_data_60min base ce)"

definition stay_hadm_charttime_key :: "vent_row \<Rightarrow> (nat \<times> nat \<times> int) option" where
  "stay_hadm_charttime_key r = map_option (\<lambda>h. (v_stay_id r, h, v_charttime r)) (v_hadm_id r)"

record ards_sf_row =
  ar_stay_id :: nat
  ar_hadm_id :: nat
  ar_charttime :: int
  ar_spo2 :: rat
  ar_fio2 :: rat
  ar_sf_ratio :: rat
  ar_minutes_from_icu :: "rat option"

definition mk_ards_sf_row :: "(nat \<times> nat \<times> int) sf_ratio_row \<Rightarrow> final_cohort_row option \<Rightarrow> ards_sf_row" where
  "mk_ards_sf_row r m =
     \<lparr>ar_stay_id = fst (sr_key r), ar_hadm_id = fst (snd (sr_key r)),
      ar_charttime = snd (snd (sr_key r)),
      ar_spo2 = sr_spo2 r, ar_fio2 = sr_fio2 r, ar_sf_ratio = sf_ratio r,
      ar_minutes_from_icu =
        map_option (\<lambda>b. total_seconds (snd (snd (sr_key r)) - base_intime b) / 60) m\<rparr>"

definition ards_sf_ratios :: "final_cohort_row list \<Rightarrow> chartevent list \<Rightarrow> ards_sf_row frame" where
  "ards_sf_ratios base ce =
     (if length (spo2_data base ce) > 0 \<and> length (fio2_data base ce) > 0
      then Frame (map (\<lambda>(r, m). mk_ards_sf_row r m)
                    (merge_left (\<lambda>r. fst (sr_key r)) base_stay_id
                       (sf_ratios_of
                          (pivot_table stay_hadm_charttime_key
                             (map convert_fio2 (sf_data_60min base ce))))
                       base))
      else DataFrame_empty)"

subsection \<open>Step 3: ARDS onset, S/F ratio of at most 315\<close>

definition ards_sf_criteria :: "ards_sf_row list \<Rightarrow> ards_sf_row list" where
  "ards_sf_criteria rs = filter (\<lambda>r. ar_sf_ratio r \<le> 315) rs"

record onset_row =
  on_hadm_id :: nat
  ards_onset_time :: "int option"
  ards_onset_sf_ratio :: "rat option"
  ards_onset_minutes_from_icu :: "rat option"

text \<open>
  \<open>groupby('hadm_id').agg({'charttime': 'min', 'sf_ratio': 'min',
  'minutes_from_icu': 'min'})\<close>: each column is aggregated on its own over the rows of
  the admission; \<open>min\<close> skips missing values.
\<close>

definition onset_of_group :: "ards_sf_row list \<Rightarrow> nat \<Rightarrow> onset_row" where
  "onset_of_group crit h =
     \<lparr>on_hadm_id = h,
      ards_onset_time = agg_min (map ar_charttime (filter (\<lambda>r. ar_hadm_id r = h) crit)),
      ards_onset_sf_ratio = agg_min (map ar_sf_ratio (filter (\<lambda>r. ar_hadm_id r = h) crit)),
      ards_onset_minutes_from_icu =
        agg_min (List.map_filter ar_minutes_from_icu (filter (\<lambda>r. ar_hadm_id r = h) crit))\<rparr>"

definition ards_onset_times :: "ards_sf_row frame \<Rightarrow> onset_row frame" where
  "ards_onset_times sfr =
     (case sfr of
        DataFrame_empty \<Rightarrow> DataFrame_empty
      | Frame rs \<Rightarrow>
          if length rs > 0
          then (if length (ards_sf_criteria rs) > 0
                then Frame (map (onset_of_group (ards_sf_criteria rs))
                              (group_keys ar_hadm_id (ards_sf_criteria rs)))
                else DataFrame_empty)
          else DataFrame_empty)"

text \<open>
  The cell ends with \<open>del sf_ratios, ards_sf_criteria\<close>. The second name is assigned
  only when the ratio frame is not empty, so the statement raises \<open>NameError\<close>
  otherwise; \<open>ards_onset_times\<close> is assigned before it in either case.
\<close>

definition clear_sf_ratios :: "ards_sf_row frame \<Rightarrow> error + unit" where
  "clear_sf_ratios sfr = (if len sfr > 0 then Inr () else Inl NameError)"

subsection \<open>Step 4: bilateral infiltrates from radiology reports\<close>

definition cohort_radiology :: "final_cohort_row list \<Rightarrow> radiology_note list \<Rightarrow> radiology_note list" where
  "cohort_radiology base rad =
     filter (\<lambda>n. case rad_hadm_id n of
                    None \<Rightarrow> False
                  | Some h \<Rightarrow> h \<in> set (map base_hadm_id base)) rad"

record bilateral_row =
  bl_hadm_id :: nat
  has_bilateral_infiltrates :: bool
  first_radiology_time :: "int option"

definition bilateral_of_group :: "(string option \<Rightarrow> bool) \<Rightarrow> radiology_note list \<Rightarrow> nat \<Rightarrow> bilateral_row" where
  "bilateral_of_group detect cr h =
     \<lparr>bl_hadm_id = h,
      has_bilateral_infiltrates =
        (\<exists>n \<in> set (filter (\<lambda>n. rad_hadm_id n = Some h) cr). detect (rad_text n)),
      first_radiology_time = agg_min (map rad_charttime (filter (\<lambda>n. rad_hadm_id n = Some h) cr))\<rparr>"

definition bilateral_by_admission :: "(string option \<Rightarrow> bool) \<Rightarrow> radiology_note list \<Rightarrow> bilateral_row list" where
  "bilateral_by_admission detect cr =
     map (bilateral_of_group detect cr) (group_keys id (List.map_filter rad_hadm_id cr))"

subsection \<open>Step 5: the final dataset with ARDS flags\<close>

record ards_cohort_row =
  ac_base :: final_cohort_row
  ac_ards_onset_time :: "int option"
  ac_ards_onset_sf_ratio :: "rat option"
  ac_ards_onset_minutes_from_icu :: "rat option"
  ac_has_bilateral_infiltrates :: bool
  ac_first_radiology_time :: "int option"

definition merge_onset :: "final_cohort_row list \<Rightarrow> onset_row frame \<Rightarrow> (final_cohort_row \<times> onset_row option) list" where
  "merge_onset base ot =
     (case ot of
        DataFrame_empty \<Rightarrow> map (\<lambda>b. (b, None)) base
      | Frame os \<Rightarrow>
          if length os > 0
          then merge_left base_hadm_id on_hadm_id base os
          else map (\<lambda>b. (b, None)) base)"

definition merge_bilateral ::
  "(final_cohort_row \<times> onset_row option) list \<Rightarrow> bilateral_row list \<Rightarrow>
   ((final_cohort_row \<times> onset_row option) \<times> bilateral_row option) list" where
  "merge_bilateral fc bl =
     (if length bl > 0
      then merge_left (\<lambda>r. base_hadm_id (fst r)) bl_hadm_id fc bl
      else map (\<lambda>r. (r, None)) fc)"

text \<open>A missing bilateral flag is filled with \<open>False\<close>.\<close>

definition mk_ards_cohort_row :: "final_cohort_row \<Rightarrow> onset_row option \<Rightarrow> bilateral_row option \<Rightarrow> ards_cohort_row" where
  "mk_ards_cohort_row b ot bl =
     \<lparr>ac_base = b,
      ac_ards_onset_time = Option.bind ot ards_onset_time,
      ac_ards_onset_sf_ratio = Option.bind ot ards_onset_sf_ratio,
      ac_ards_onset_minutes_from_icu = Option.bind ot ards_onset_minutes_from_icu,
      ac_has_bilateral_infiltrates = (case bl of None \<Rightarrow> False | Some x \<Rightarrow> has_bilateral_infiltrates x),
      ac_first_radiology_time = Option.bind bl first_radiology_time\<rparr>"

definition ards_final_cohort :: "final_cohort_row list \<Rightarrow> onset_row frame \<Rightarrow> bilateral_row list \<Rightarrow> ards_cohort_row list" where
  "ards_final_cohort base ot bl =
     map (\<lambda>((b, on), bo). mk_ards_cohort_row b on bo) (merge_bilateral (merge_onset base ot) bl)"

definition has_ards_onset :: "ards_cohort_row \<Rightarrow> bool" where
  "has_ards_onset r = (ac_ards_onset_time r \<noteq> None)"

definition has_ards :: "ards_cohort_row \<Rightarrow> bool" where
  "has_ards r = (has_ards_onset r \<and> ac_has_bilateral_infiltrates r)"

text \<open>The notebook's cells 5 to 16 as one function of the inputs.\<close>

definition ards_identification ::
  "(string option \<Rightarrow> bool) \<Rightarrow> final_cohort_row list \<Rightarrow> chartevent list \<Rightarrow> radiology_note list \<Rightarrow>
   ards_cohort_row list" where
  "ards_identification detect base ce rad =
     ards_final_cohort base (ards_onset_times (ards_sf_ratios base ce))
       (bilateral_by_admission detect (cohort_radiology base rad))"

text \<open>
  Run in order, the notebook stops at the first cell that raises. The only statement of
  cells 5 to 16 that can raise is the \<open>del\<close> that ends the onset cell.
\<close>

definition ards_identification_run ::
  "(string option \<Rightarrow> bool) \<Rightarrow> final_cohort_row list \<Rightarrow> chartevent list \<Rightarrow> radiology_note list \<Rightarrow>
   error + ards_cohort_row list" where
  "ards_identification_run detect base ce rad =
     (case clear_sf_ratios (ards_sf_ratios base ce) of
        Inl e \<Rightarrow> Inl e
      | Inr u \<Rightarrow> Inr (ards_identification detect base ce rad))"

section \<open>ARDS identification by the Berlin criteria (first notebook)\<close>

subsection \<open>Step 2: first report with bilateral infiltrates per admission\<close>

text \<open>
  Only the reports that the classifier flags are grouped: an admission without a flagged
  report has no row, and the time kept is the minimum over the flagged reports.
\<close>

record bilateral_df_row =
  bd_hadm_id :: nat
  bilateral_infiltrates_time :: "int option"
  bd_note_id :: "string option"

definition bilateral_df_of_group :: "radiology_note list \<Rightarrow> nat \<Rightarrow> bilateral_df_row" where
  "bilateral_df_of_group pos h =
     \<lparr>bd_hadm_id = h,
      bilateral_infiltrates_time =
        agg_min (map rad_charttime (filter (\<lambda>n. rad_hadm_id n = Some h) pos)),
      bd_note_id = agg_first (map rad_note_id (filter (\<lambda>n. rad_hadm_id n = Some h) pos))\<rparr>"

definition bilateral_infiltrates_df :: "(string option \<Rightarrow> bool) \<Rightarrow> radiology_note list \<Rightarrow> bilateral_df_row list" where
  "bilateral_infiltrates_df detect cr =
     map (bilateral_df_of_group (filter (\<lambda>n. detect (rad_text n)) cr))
       (group_keys id (List.map_filter rad_hadm_id (filter (\<lambda>n. detect (rad_text n)) cr)))"

subsection \<open>Step 3: ventilation parameters (PEEP, PaO2, FiO2, charted P/F ratio)\<close>

text \<open>
  This notebook reads the chart events with their own admission identifier and keeps
  rows with a missing value. No SpO2 item is among the extracted items.
\<close>

record vent_df_row =
  vd_hadm_id :: nat
  vd_stay_id :: nat
  vd_itemid :: nat
  vd_charttime :: int
  vd_valuenum :: "rat option"

definition peep_items :: "nat list" where
  "peep_items = [220339, 224700]"

definition fio2_percent_items :: "nat list" where
  "fio2_percent_items = [220210]"

definition fio2_fraction_items :: "nat list" where
  "fio2_fraction_items = [223835, 224698]"

definition pao2_items :: "nat list" where
  "pao2_items = [220224, 224689]"

definition pf_ratio_items :: "nat list" where
  "pf_ratio_items = [223834]"

definition all_itemids :: "nat list" where
  "all_itemids = peep_items @ fio2_percent_items @ fio2_fraction_items @ pao2_items @ pf_ratio_items"

definition vent_df :: "icustay list \<Rightarrow> vent_df_row list \<Rightarrow> vent_df_row list" where
  "vent_df cohort_stays ce =
     filter (\<lambda>e. vd_stay_id e \<in> set (map icu_stay_id cohort_stays) \<and> vd_itemid e \<in> set all_itemids) ce"

text \<open>
  The chart events are read in chunks; the filtered rows of a chunk are kept when there
  are any, and \<open>pd.concat\<close> joins the kept parts. \<open>pd.concat\<close> of an empty list raises
  \<open>ValueError\<close>.
\<close>

definition pd_concat :: "'a list list \<Rightarrow> error + 'a list" where
  "pd_concat parts = (if parts = [] then Inl ValueError else Inr (concat parts))"

definition vent_df_chunked :: "icustay list \<Rightarrow> vent_df_row list list \<Rightarrow> error + vent_df_row list" where
  "vent_df_chunked cohort_stays chunks =
     pd_concat (filter (\<lambda>chunk_filtered. length chunk_filtered > 0)
                  (map (vent_df cohort_stays) chunks))"

text \<open>The parameter type, assigned in the order PEEP, FiO2 percent, FiO2 fraction, PaO2, P/F.\<close>

definition classify_vent :: "nat \<Rightarrow> param_type" where
  "classify_vent i =
     (if i \<in> set pf_ratio_items then Pf_ratio
      else if i \<in> set pao2_items then Pao2
      else if i \<in> set fio2_fraction_items then Fio2_fraction
      else if i \<in> set fio2_percent_items then Fio2_percent
      else if i \<in> set peep_items then Peep
      else Unknown)"

text \<open>
  FiO2 recorded as a percentage is divided by 100, then both FiO2 kinds are called
  \<open>fio2\<close>. The result is the parameter type and the value of a row.
\<close>

definition vent_param :: "vent_df_row \<Rightarrow> param_type \<times> rat option" where
  "vent_param e =
     (let p = classify_vent (vd_itemid e);
          v = (if p = Fio2_percent then map_option (\<lambda>x. x / 100) (vd_valuenum e) else vd_valuenum e)
      in (if p = Fio2_percent \<or> p = Fio2_fraction then Fio2 else p, v))"

record vent_processed_row =
  vp_hadm_id :: nat
  vp_charttime :: int
  vp_peep :: "rat option"
  vp_fio2 :: "rat option"
  vp_pao2 :: "rat option"
  vp_pf_ratio :: "rat option"

text \<open>
  The pivot takes, for each admission and time, the first value of each parameter that
  is not missing; a time at which every value is missing has no row.
\<close>

definition first_valid :: "param_type \<Rightarrow> nat \<times> int \<Rightarrow> vent_df_row list \<Rightarrow> rat option" where
  "first_valid p k df =
     agg_first (List.map_filter (\<lambda>e. snd (vent_param e))
                  (filter (\<lambda>e. fst (vent_param e) = p \<and> (vd_hadm_id e, vd_charttime e) = k) df))"

definition pivot_df :: "vent_df_row list \<Rightarrow> (nat \<times> int) list" where
  "pivot_df df =
     group_keys (\<lambda>e. (vd_hadm_id e, vd_charttime e)) (filter (\<lambda>e. snd (vent_param e) \<noteq> None) df)"

text \<open>The P/F ratio is computed from PaO2 and a positive FiO2 where it is not charted.\<close>

definition compute_pf_ratio :: "rat option \<Rightarrow> rat option \<Rightarrow> rat option \<Rightarrow> rat option" where
  "compute_pf_ratio pf pao2 fio2 =
     (case pf of
        Some x \<Rightarrow> Some x
      | None \<Rightarrow>
          (case (pao2, fio2) of
             (Some p, Some f) \<Rightarrow> if f > 0 then Some (p / f) else None
           | _ \<Rightarrow> None))"

definition process_vent_params_vectorized :: "vent_df_row list \<Rightarrow> vent_processed_row list" where
  "process_vent_params_vectorized df =
     map (\<lambda>k. \<lparr>vp_hadm_id = fst k, vp_charttime = snd k,
                vp_peep = first_valid Peep k df,
                vp_fio2 = first_valid Fio2 k df,
                vp_pao2 = first_valid Pao2 k df,
                vp_pf_ratio = compute_pf_ratio (first_valid Pf_ratio k df)
                                (first_valid Pao2 k df) (first_valid Fio2 k df)\<rparr>)
       (pivot_df df)"

subsection \<open>Step 4: the Berlin criteria\<close>

definition vent_with_bilateral ::
  "bilateral_df_row list \<Rightarrow> vent_processed_row list \<Rightarrow> final_cohort_row list \<Rightarrow>
   ((vent_processed_row \<times> bilateral_df_row) \<times> final_cohort_row) list" where
  "vent_with_bilateral bdf vp base =
     merge_inner (\<lambda>r. vp_hadm_id (fst r)) base_hadm_id
       (merge_inner vp_hadm_id bd_hadm_id vp bdf) base"

definition hours_between :: "int option \<Rightarrow> int option \<Rightarrow> rat option" where
  "hours_between t s =
     (case (t, s) of (Some a, Some b) \<Rightarrow> Some (total_seconds (a - b) / 3600) | _ \<Rightarrow> None)"

definition hours_from_admission :: "(vent_processed_row \<times> bilateral_df_row) \<times> final_cohort_row \<Rightarrow> rat option" where
  "hours_from_admission r =
     hours_between (Some (vp_charttime (fst (fst r)))) (Some (admission_dttm (snd r)))"

definition hours_from_bilateral :: "(vent_processed_row \<times> bilateral_df_row) \<times> final_cohort_row \<Rightarrow> rat option" where
  "hours_from_bilateral r =
     hours_between (Some (vp_charttime (fst (fst r)))) (bilateral_infiltrates_time (snd (fst r)))"

definition bilateral_from_admission :: "(vent_processed_row \<times> bilateral_df_row) \<times> final_cohort_row \<Rightarrow> rat option" where
  "bilateral_from_admission r =
     hours_between (bilateral_infiltrates_time (snd (fst r))) (Some (admission_dttm (snd r)))"

definition le_opt :: "rat option \<Rightarrow> rat \<Rightarrow> bool" where
  "le_opt x c = (case x of None \<Rightarrow> False | Some v \<Rightarrow> v \<le> c)"

definition ge_opt :: "rat option \<Rightarrow> rat \<Rightarrow> bool" where
  "ge_opt x c = (case x of None \<Rightarrow> False | Some v \<Rightarrow> v \<ge> c)"

definition berlin_mask :: "(vent_processed_row \<times> bilateral_df_row) \<times> final_cohort_row \<Rightarrow> bool" where
  "berlin_mask r =
     (le_opt (bilateral_from_admission r) 168 \<and>
      ge_opt (hours_from_bilateral r) 0 \<and>
      ge_opt (hours_from_admission r) 0 \<and>
      le_opt (hours_from_admission r) 168 \<and>
      ge_opt (vp_peep (fst (fst r))) 5 \<and>
      vp_pf_ratio (fst (fst r)) \<noteq> None \<and>
      le_opt (vp_pf_ratio (fst (fst r))) 300)"

definition qualifying_measurements ::
  "bilateral_df_row list \<Rightarrow> vent_processed_row list \<Rightarrow> final_cohort_row list \<Rightarrow>
   ((vent_processed_row \<times> bilateral_df_row) \<times> final_cohort_row) list" where
  "qualifying_measurements bdf vp base = filter berlin_mask (vent_with_bilateral bdf vp base)"

section \<open>Example inputs\<close>

text \<open>
  Four adult admissions with intensive-care stays starting at time 0. Admission 10 has
  two stays. Each admission has one PEEP reading of 5: at exactly 48 hours (admission 10),
  at 48.0001 hours (11), at exactly 0 hours (12) and at -0.0001 hours (13).
  Admission 10 has SpO2 90 with FiO2 50 percent; admission 12 has SpO2 -90 with FiO2
  50 percent and carries both a heart-failure and a pregnancy code.
\<close>

definition ex_pat1 :: patient where
  "ex_pat1 = \<lparr>pat_subject_id = 1, anchor_age = 60, anchor_year = 2100, gender = ''M''\<rparr>"

definition ex_pat2 :: patient where
  "ex_pat2 = \<lparr>pat_subject_id = 2, anchor_age = 40, anchor_year = 2100, gender = ''F''\<rparr>"

definition ex_adm :: "nat \<Rightarrow> nat \<Rightarrow> admission" where
  "ex_adm s h = \<lparr>adm_subject_id = s, adm_hadm_id = h, admittime = 0, dischtime = 864000000000000,
                 admit_year = 2101, hospital_expire_flag = 0\<rparr>"

definition ex_stay :: "nat \<Rightarrow> nat \<Rightarrow> int \<Rightarrow> int \<Rightarrow> icustay" where
  "ex_stay h s t0 t1 = \<lparr>icu_hadm_id = h, icu_stay_id = s, intime = t0, outtime = t1\<rparr>"

definition ex_event :: "nat \<Rightarrow> nat \<Rightarrow> int \<Rightarrow> rat \<Rightarrow> chartevent" where
  "ex_event s i t v = \<lparr>ce_stay_id = s, ce_itemid = i, ce_charttime = t, ce_valuenum = Some v\<rparr>"

definition ex_row :: "nat \<Rightarrow> patient \<Rightarrow> nat \<Rightarrow> icustay \<Rightarrow> patient_data_row \<times> icustay" where
  "ex_row s p h st = (\<lparr>pd_adm = ex_adm s h, pd_pat = Some p\<rparr>, st)"

definition ex_vent :: "nat \<Rightarrow> nat \<Rightarrow> nat \<Rightarrow> int \<Rightarrow> rat \<Rightarrow> param_type \<Rightarrow> vent_row" where
  "ex_vent h s i t v p =
     \<lparr>v_stay_id = s, v_itemid = i, v_charttime = t, v_valuenum = v, v_param_type = p,
      v_hadm_id = Some h, v_intime = Some 0\<rparr>"

definition ex_tables :: tables where
  "ex_tables =
     \<lparr>patients = [ex_pat1, ex_pat2],
      admissions = [ex_adm 1 10, ex_adm 1 11, ex_adm 2 12, ex_adm 2 13],
      icustays =
        [ex_stay 10 100 0 172800000000000,
         ex_stay 11 101 0 86400000000000,
         ex_stay 12 102 0 86400000000000,
         ex_stay 13 103 0 86400000000000,
         ex_stay 10 104 259200000000000 388800000000000],
      chartevents =
        [ex_event 100 220339 172800000000000 5,
         ex_event 101 220339 172800360000000 5,
         ex_event 102 220339 0 5,
         ex_event 103 220339 (- 360000000) 5,
         ex_event 100 220277 3600000000000 90,
         ex_event 100 220210 3600000000000 50,
         ex_event 102 220277 3600000000000 (- 90),
         ex_event 102 220210 3600000000000 50],
      diagnoses =
        [\<lparr>dx_hadm_id = 12, icd_code = Some ''4280''\<rparr>,
         \<lparr>dx_hadm_id = 12, icd_code = Some ''O80''\<rparr>,
         \<lparr>dx_hadm_id = 10, icd_code = Some ''J80''\<rparr>],
      radiology =
        [\<lparr>rad_note_id = ''n1'', rad_hadm_id = Some 10, rad_charttime = 7200000000000,
          rad_text = Some ''bilateral opacities''\<rparr>,
         \<lparr>rad_note_id = ''n2'', rad_hadm_id = Some 12, rad_charttime = 7200000000000,
          rad_text = Some ''clear lungs''\<rparr>]\<rparr>"

text \<open>
  In the example inputs every SpO2 reading has an FiO2 reading of the same admission at
  the same time, which is then the nearest one; the matching below pairs the readings
  taken at the same time, and the times are in order after the sort.
\<close>

definition ex_asof :: merge_asof where
  "ex_asof sp fi =
     Inr (List.map_filter
            (\<lambda>s. case v_hadm_id s of
                    None \<Rightarrow> None
                  | Some h \<Rightarrow>
                      Some \<lparr>as_hadm_id = h, as_charttime = v_charttime s, valuenum_spo2 = v_valuenum s,
                            valuenum_fio2 =
                              map_option v_valuenum
                                (find (\<lambda>f. v_hadm_id f = Some h \<and> v_charttime f = v_charttime s) fi)\<rparr>)
            sp)"

text \<open>
  Inputs of the ARDS identification: the base cohort is the final cohort of the example
  above (admission 10 with its two stays). Stay 100 has SpO2 90 with FiO2 30 percent at
  10 minutes (ratio 300), SpO2 90 with FiO2 45 percent at 20 minutes (ratio 200), and a
  pair at two hours. Admission 10 has a report without the finding followed by one with it.
\<close>

definition ex_detect :: "string option \<Rightarrow> bool" where
  "ex_detect t = (t = Some ''bilateral opacities'')"

definition ex_base_row :: "icustay \<Rightarrow> final_cohort_row" where
  "ex_base_row st = final_cohort_of ex_tables (ex_row 1 ex_pat1 10 st)"

definition ex_base :: "final_cohort_row list" where
  "ex_base =
     [ex_base_row (ex_stay 10 100 0 172800000000000),
      ex_base_row (ex_stay 10 104 259200000000000 388800000000000)]"

definition ex_sf_chartevents :: "chartevent list" where
  "ex_sf_chartevents =
     [ex_event 100 220277 600000000000 90,
      ex_event 100 220210 600000000000 30,
      ex_event 100 220277 1200000000000 90,
      ex_event 100 220210 1200000000000 45,
      ex_event 100 220277 7200000000000 80,
      ex_event 100 220210 7200000000000 100]"

definition ex_reports :: "radiology_note list" where
  "ex_reports =
     [\<lparr>rad_note_id = ''n1'', rad_hadm_id = Some 10, rad_charttime = 1000,
       rad_text = Some ''clear lungs''\<rparr>,
      \<lparr>rad_note_id = ''n2'', rad_hadm_id = Some 10, rad_charttime = 5000,
       rad_text = Some ''bilateral opacities''\<rparr>]"

definition ex_ards_sf :: "int \<Rightarrow> rat \<Rightarrow> rat \<Rightarrow> rat \<Rightarrow> ards_sf_row" where
  "ex_ards_sf t f q m =
     \<lparr>ar_stay_id = 100, ar_hadm_id = 10, ar_charttime = t, ar_spo2 = 90, ar_fio2 = f,
      ar_sf_ratio = q, ar_minutes_from_icu = Some m\<rparr>"

text \<open>
  Inputs of the Berlin-criteria notebook for admission 10, one hour after admission:
  PEEP 6 with PaO2 100 and FiO2 50 percent (P/F 200), and PEEP 6 with SpO2 90 and FiO2
  50 percent (S/F 180, no PaO2).
\<close>

definition ex_vd :: "nat \<Rightarrow> rat \<Rightarrow> vent_df_row" where
  "ex_vd i v = \<lparr>vd_hadm_id = 10, vd_stay_id = 100, vd_itemid = i, vd_charttime = 3600000000000,
               vd_valuenum = Some v\<rparr>"

definition ex_pf_events :: "vent_df_row list" where
  "ex_pf_events = [ex_vd 220339 6, ex_vd 220224 100, ex_vd 220210 50]"

definition ex_sf_only_events :: "vent_df_row list" where
  "ex_sf_only_events = [ex_vd 220339 6, ex_vd 220277 90, ex_vd 220210 50]"

definition ex_vp :: "rat option \<Rightarrow> rat option \<Rightarrow> vent_processed_row" where
  "ex_vp pa pf = \<lparr>vp_hadm_id = 10, vp_charttime = 3600000000000, vp_peep = Some 6,
                  vp_fio2 = Some (1 / 2), vp_pao2 = pa, vp_pf_ratio = pf\<rparr>"

section \<open>Properties\<close>

subsection \<open>Rounding to a floating-point format\<close>






lemma ilog2_upper:
  assumes "0 < x"
  shows "x < pow2 (ilog2 x + 1)"
proof (cases "1 \<le> x")
  case True
  then have n: "0 < \<lfloor>x\<rfloor>" by simp
  from bitlen_bounds[OF n] have "\<lfloor>x\<rfloor> + 1 \<le> 2 ^ nat (bitlen \<lfloor>x\<rfloor>)" by simp
  then have "(of_int (\<lfloor>x\<rfloor> + 1) :: rat) \<le> of_int (2 ^ nat (bitlen \<lfloor>x\<rfloor>))"
    by (simp only: of_int_le_iff)
  moreover have "x < of_int (\<lfloor>x\<rfloor> + 1)" by linarith
  ultimately have "x < 2 ^ nat (bitlen \<lfloor>x\<rfloor>)" by simp
  then show ?thesis using True bitlen_nonneg[of "\<lfloor>x\<rfloor>"] by (simp add: ilog2_def pow2_def)
next
  case False
  with assms have y: "1 < 1 / x" by simp
  let ?n = "\<lceil>1 / x\<rceil> - 1"
  from y have n: "0 < ?n" by linarith
  have k: "0 < bitlen ?n"
    using n bitlen_eq_zero_iff[of ?n] bitlen_nonneg[of ?n] by linarith
  from bitlen_bounds[OF n] have "2 ^ nat (bitlen ?n - 1) \<le> ?n" by simp
  then have "(of_int (2 ^ nat (bitlen ?n - 1)) :: rat) \<le> of_int ?n"
    by (simp only: of_int_le_iff)
  moreover have "of_int ?n < 1 / x" by linarith
  ultimately have "2 ^ nat (bitlen ?n - 1) < 1 / x" by simp
  with assms have "x < 1 / 2 ^ nat (bitlen ?n - 1)"
    by (simp add: field_simps)
  moreover have "pow2 (- bitlen ?n + 1) = 1 / 2 ^ nat (bitlen ?n - 1)"
    using k by (cases "bitlen ?n = 1") (simp_all add: pow2_def)
  ultimately show ?thesis using False by (simp add: ilog2_def)
qed









lemma set_merge_inner:
  "set (merge_inner ka kb xs ys) = {(x, y). x \<in> set xs \<and> y \<in> set ys \<and> kb y = ka x}"
  by (auto simp: merge_inner_def)

lemma set_merge_left:
  "set (merge_left ka kb xs ys) =
     {(x, Some y) | x y. x \<in> set xs \<and> y \<in> set ys \<and> kb y = ka x} \<union>
     {(x, None) | x. x \<in> set xs \<and> (\<forall>y \<in> set ys. kb y \<noteq> ka x)}"
proof -
  have one: "set (case filter (\<lambda>y. kb y = ka x) ys of [] \<Rightarrow> [(x, None)]
                   | ms \<Rightarrow> map (\<lambda>y. (x, Some y)) ms) =
             {(x, Some y) | y. y \<in> set ys \<and> kb y = ka x} \<union>
             {(x, None) | z. z = x \<and> (\<forall>y \<in> set ys. kb y \<noteq> ka x)}" for x
  proof (cases "filter (\<lambda>y. kb y = ka x) ys")
    case Nil
    then have "\<forall>y \<in> set ys. kb y \<noteq> ka x" by (simp add: filter_empty_conv)
    with Nil show ?thesis by auto
  next
    case (Cons m ms)
    then have "m \<in> set (filter (\<lambda>y. kb y = ka x) ys)" by simp
    then have ex: "\<exists>y \<in> set ys. kb y = ka x" by auto
    have "set (map (\<lambda>y. (x, Some y)) (filter (\<lambda>y. kb y = ka x) ys)) =
          {(x, Some y) | y. y \<in> set ys \<and> kb y = ka x}" by auto
    with Cons ex show ?thesis by auto
  qed
  show ?thesis
    unfolding merge_left_def set_concat set_map by (auto simp: one)
qed

subsection \<open>The ventilation data as a set of joined rows\<close>

lemma set_map_filter: "set (List.map_filter f xs) = {y. \<exists>x \<in> set xs. f x = Some y}"
proof -
  have "set (List.map_filter f xs) = (\<lambda>x. the (f x)) ` {x \<in> set xs. f x \<noteq> None}"
    by (simp add: List.map_filter_def)
  also have "\<dots> = {y. \<exists>x \<in> set xs. f x = Some y}"
    by force
  finally show ?thesis .
qed

lemma set_vent_events:
  "set (vent_events T) =
     {(e, v). e \<in> set (chartevents T) \<and> ce_valuenum e = Some v \<and>
              ce_stay_id e \<in> target_stay_ids T \<and> ce_itemid e \<in> set ALL_VENT_ITEMIDS}"
  by (auto simp: vent_events_def split: option.splits if_splits)

lemma classify_param_Peep: "classify_param i = Peep \<longleftrightarrow> i \<in> set PEEP_ITEMIDS"
  by (auto simp: classify_param_def PEEP_ITEMIDS_def SPO2_ITEMIDS_def FIO2_ITEMIDS_def)

lemma PEEP_subset_ALL: "i \<in> set PEEP_ITEMIDS \<Longrightarrow> i \<in> set ALL_VENT_ITEMIDS"
  by (simp add: ALL_VENT_ITEMIDS_def)

lemma set_vent_data:
  "set (vent_data T) =
     {mk_vent_row e v (Some r) | e v r. (e, v) \<in> set (vent_events T) \<and> r \<in> set (adult_icu_admissions T) \<and> row_stay_id r = ce_stay_id e}"
proof -
  have nomiss: "(e, v) \<in> set (vent_events T) \<Longrightarrow> \<exists>r \<in> set (adult_icu_admissions T). row_stay_id r = ce_stay_id e" for e v
    by (auto simp: set_vent_events target_stay_ids_def)
  have B: "{((e, v), None) | e v. (e, v) \<in> set (vent_events T) \<and>
             (\<forall>y \<in> set (adult_icu_admissions T). row_stay_id y \<noteq> ce_stay_id e)} = {}"
    using nomiss by blast
  have "set (vent_data T) = (\<lambda>((e, v), m). mk_vent_row e v m) `
          {((e, v), Some r) | e v r. (e, v) \<in> set (vent_events T) \<and> r \<in> set (adult_icu_admissions T) \<and>
              row_stay_id r = ce_stay_id e}"
  proof -
    have "set (merge_left (\<lambda>(e, v). ce_stay_id e) row_stay_id (vent_events T) (adult_icu_admissions T)) =
       {((e, v), Some r) | e v r. (e, v) \<in> set (vent_events T) \<and> r \<in> set (adult_icu_admissions T) \<and>
              row_stay_id r = ce_stay_id e} \<union>
       {((e, v), None) | e v. (e, v) \<in> set (vent_events T) \<and>
             (\<forall>y \<in> set (adult_icu_admissions T). row_stay_id y \<noteq> ce_stay_id e)}"
      unfolding set_merge_left by auto
    then show ?thesis unfolding vent_data_def set_map B by simp
  qed
  also have "\<dots> = {mk_vent_row e v (Some r) | e v r. (e, v) \<in> set (vent_events T) \<and> r \<in> set (adult_icu_admissions T) \<and> row_stay_id r = ce_stay_id e}"
  proof (intro set_eqI iffI, goal_cases)
    case (1 x)
    then show ?case by auto
  next
    case (2 x)
    then obtain e v r where o: "x = mk_vent_row e v (Some r)" "(e, v) \<in> set (vent_events T)"
        "r \<in> set (adult_icu_admissions T)" "row_stay_id r = ce_stay_id e"
      by blast
    from o(1) have eq: "x = (\<lambda>((e, v), m). mk_vent_row e v m) ((e, v), Some r)" by simp
    from o(2-4) have mem: "((e, v), Some r) \<in> {((e, v), Some r) | e v r. (e, v) \<in> set (vent_events T) \<and>
          r \<in> set (adult_icu_admissions T) \<and> row_stay_id r = ce_stay_id e}" by blast
    from eq mem show ?case by (rule image_eqI)
  qed
  finally show ?thesis .
qed

lemma peep_qualifying_admissions_iff:
  "h \<in> peep_qualifying_admissions T \<longleftrightarrow>
     (\<exists>e \<in> set (chartevents T). \<exists>r \<in> set (adult_icu_admissions T). \<exists>v.
        row_stay_id r = ce_stay_id e \<and> row_hadm_id r = h \<and>
        ce_itemid e \<in> set PEEP_ITEMIDS \<and> ce_valuenum e = Some v \<and> v \<ge> 5 \<and>
        0 \<le> total_seconds (ce_charttime e - intime (snd r)) / 3600 \<and>
        total_seconds (ce_charttime e - intime (snd r)) / 3600 \<le> 48)"
  (is "?L \<longleftrightarrow> ?R")
proof
  assume ?L
  then obtain x where x: "x \<in> set (vent_data T)" "peep_mask x" "v_hadm_id x = Some h"
    by (auto simp: peep_qualifying_admissions_def peep_qualifying_def set_map_filter)
  from x(1) obtain e v r where evr: "x = mk_vent_row e v (Some r)" "(e, v) \<in> set (vent_events T)"
     "r \<in> set (adult_icu_admissions T)" "row_stay_id r = ce_stay_id e"
    unfolding set_vent_data by blast
  from evr(2) have e: "e \<in> set (chartevents T)" "ce_valuenum e = Some v"
    by (auto simp: set_vent_events)
  from x(2) evr(1) have m: "ce_itemid e \<in> set PEEP_ITEMIDS" "v \<ge> 5"
      "0 \<le> total_seconds (ce_charttime e - intime (snd r)) / 3600"
      "total_seconds (ce_charttime e - intime (snd r)) / 3600 \<le> 48"
    by (simp_all add: peep_mask_def hours_from_icu_def mk_vent_row_def classify_param_Peep)
  from x(3) evr(1) have hh: "row_hadm_id r = h"
    by (simp add: mk_vent_row_def)
  from e m hh evr(3,4) show ?R by blast
next
  assume ?R
  then obtain e r v where h: "e \<in> set (chartevents T)" "r \<in> set (adult_icu_admissions T)"
     "row_stay_id r = ce_stay_id e" "row_hadm_id r = h"
        "ce_itemid e \<in> set PEEP_ITEMIDS" "ce_valuenum e = Some v" "v \<ge> 5"
        "0 \<le> total_seconds (ce_charttime e - intime (snd r)) / 3600"
        "total_seconds (ce_charttime e - intime (snd r)) / 3600 \<le> 48"
    by blast
  have ev: "(e, v) \<in> set (vent_events T)"
  proof -
    have "ce_stay_id e \<in> target_stay_ids T"
      unfolding target_stay_ids_def using h(2,3) by (metis image_eqI set_map)
    with h show ?thesis by (simp add: set_vent_events PEEP_subset_ALL)
  qed
  have "mk_vent_row e v (Some r) \<in> set (vent_data T)"
    unfolding set_vent_data using ev h by blast
  moreover have "peep_mask (mk_vent_row e v (Some r))" "v_hadm_id (mk_vent_row e v (Some r)) = Some h"
    using h by (simp_all add: peep_mask_def hours_from_icu_def mk_vent_row_def classify_param_Peep)
  ultimately show ?L
    by (auto simp: peep_qualifying_admissions_def peep_qualifying_def set_map_filter)
qed


lemma set_cohort_events:
  "set (cohort_events T) =
     {(e, v). e \<in> set (chartevents T) \<and> ce_valuenum e = Some v \<and>
              ce_stay_id e \<in> cohort_stay_ids T \<and> ce_itemid e \<in> set ALL_VENT_ITEMIDS}"
  by (auto simp: cohort_events_def split: option.splits if_splits)

lemma set_cohort_data:
  "set (cohort_data T) =
     {mk_cohort_row e v s | e v s. (e, v) \<in> set (cohort_events T) \<and> s \<in> set (cohort_icustays T) \<and>
        icu_stay_id s = ce_stay_id e}"
proof -
  have "set (cohort_data T) = (\<lambda>((e, v), s). mk_cohort_row e v s) `
          {((e, v), s) | e v s. (e, v) \<in> set (cohort_events T) \<and> s \<in> set (cohort_icustays T) \<and>
              icu_stay_id s = ce_stay_id e}"
    unfolding cohort_data_def set_map set_merge_inner
    by (rule arg_cong[where f = "\<lambda>S. (\<lambda>((e, v), s). mk_cohort_row e v s) ` S"]) auto
  also have "\<dots> = {mk_cohort_row e v s | e v s. (e, v) \<in> set (cohort_events T) \<and>
        s \<in> set (cohort_icustays T) \<and> icu_stay_id s = ce_stay_id e}"
    by (auto simp: image_iff) blast
  finally show ?thesis .
qed

lemma admissions_with_peep_iff:
  "h \<in> admissions_with_peep T \<longleftrightarrow>
     (\<exists>e \<in> set (chartevents T). \<exists>s \<in> set (cohort_icustays T). \<exists>v.
        icu_stay_id s = ce_stay_id e \<and> icu_hadm_id s = h \<and>
        ce_itemid e \<in> set PEEP_ITEMIDS \<and> ce_valuenum e = Some v \<and> v \<ge> 5 \<and>
        0 \<le> total_seconds (ce_charttime e - intime s) / 3600 \<and>
        total_seconds (ce_charttime e - intime s) / 3600 \<le> 48)"
  (is "?L \<longleftrightarrow> ?R")
proof
  assume ?L
  then obtain x where x: "x \<in> set (cohort_data T)" "peep_mask x" "v_hadm_id x = Some h"
    by (auto simp: admissions_with_peep_def peep_first_48h_def set_map_filter)
  from x(1) obtain e v s where evs: "x = mk_cohort_row e v s" "(e, v) \<in> set (cohort_events T)"
     "s \<in> set (cohort_icustays T)" "icu_stay_id s = ce_stay_id e"
    unfolding set_cohort_data by blast
  from evs(2) have e: "e \<in> set (chartevents T)" "ce_valuenum e = Some v"
    by (auto simp: set_cohort_events)
  from x(2) evs(1) have m: "ce_itemid e \<in> set PEEP_ITEMIDS" "v \<ge> 5"
      "0 \<le> total_seconds (ce_charttime e - intime s) / 3600"
      "total_seconds (ce_charttime e - intime s) / 3600 \<le> 48"
    by (simp_all add: peep_mask_def hours_from_icu_def mk_cohort_row_def classify_param_Peep)
  from x(3) evs(1) have hh: "icu_hadm_id s = h"
    by (simp add: mk_cohort_row_def)
  from e m hh evs(3,4) show ?R by blast
next
  assume ?R
  then obtain e s v where h: "e \<in> set (chartevents T)" "s \<in> set (cohort_icustays T)"
     "icu_stay_id s = ce_stay_id e" "icu_hadm_id s = h"
        "ce_itemid e \<in> set PEEP_ITEMIDS" "ce_valuenum e = Some v" "v \<ge> 5"
        "0 \<le> total_seconds (ce_charttime e - intime s) / 3600"
        "total_seconds (ce_charttime e - intime s) / 3600 \<le> 48"
    by blast
  have ev: "(e, v) \<in> set (cohort_events T)"
  proof -
    have "ce_stay_id e \<in> cohort_stay_ids T"
      unfolding cohort_stay_ids_def using h(2,3) by (metis image_eqI set_map)
    with h show ?thesis by (simp add: set_cohort_events PEEP_subset_ALL)
  qed
  have "mk_cohort_row e v s \<in> set (cohort_data T)"
    unfolding set_cohort_data using ev h by blast
  moreover have "peep_mask (mk_cohort_row e v s)" "v_hadm_id (mk_cohort_row e v s) = Some h"
    using h by (simp_all add: peep_mask_def hours_from_icu_def mk_cohort_row_def classify_param_Peep)
  ultimately show ?L
    by (auto simp: admissions_with_peep_def peep_first_48h_def set_map_filter)
qed


subsection \<open>The example inputs, stage by stage\<close>

lemmas ex_defs = ex_tables_def ex_pat1_def ex_pat2_def ex_adm_def ex_stay_def ex_event_def ex_row_def ex_vent_def

lemma ex_adult_admissions:
  "adult_admissions ex_tables =
     [\<lparr>pd_adm = ex_adm 1 10, pd_pat = Some ex_pat1\<rparr>, \<lparr>pd_adm = ex_adm 1 11, pd_pat = Some ex_pat1\<rparr>,
      \<lparr>pd_adm = ex_adm 2 12, pd_pat = Some ex_pat2\<rparr>, \<lparr>pd_adm = ex_adm 2 13, pd_pat = Some ex_pat2\<rparr>]"
  by (simp add: adult_admissions_def patient_data_def merge_left_def ex_defs age_at_admission_def)

lemma ex_adult_icu_admissions:
  "adult_icu_admissions ex_tables =
     [ex_row 1 ex_pat1 10 (ex_stay 10 100 0 172800000000000),
      ex_row 1 ex_pat1 10 (ex_stay 10 104 259200000000000 388800000000000),
      ex_row 1 ex_pat1 11 (ex_stay 11 101 0 86400000000000),
      ex_row 2 ex_pat2 12 (ex_stay 12 102 0 86400000000000),
      ex_row 2 ex_pat2 13 (ex_stay 13 103 0 86400000000000)]"
  unfolding adult_icu_admissions_def ex_adult_admissions
  by (simp add: merge_inner_def ex_defs)

lemma ex_chartevents: "chartevents ex_tables = [ex_event 100 220339 172800000000000 5,
         ex_event 101 220339 172800360000000 5,
         ex_event 102 220339 0 5,
         ex_event 103 220339 (- 360000000) 5,
         ex_event 100 220277 3600000000000 90,
         ex_event 100 220210 3600000000000 50,
         ex_event 102 220277 3600000000000 (- 90),
         ex_event 102 220210 3600000000000 50]"
  by (simp add: ex_tables_def)

lemma ex_vent_events:
  "vent_events ex_tables = [(ex_event 100 220339 172800000000000 5, 5),
         (ex_event 101 220339 172800360000000 5, 5),
         (ex_event 102 220339 0 5, 5),
         (ex_event 103 220339 (- 360000000) 5, 5),
         (ex_event 100 220277 3600000000000 90, 90),
         (ex_event 100 220210 3600000000000 50, 50),
         (ex_event 102 220277 3600000000000 (- 90), -90),
         (ex_event 102 220210 3600000000000 50, 50)]"
  unfolding vent_events_def target_stay_ids_def ex_adult_icu_admissions ex_chartevents
  by (simp add: row_stay_id_def ex_row_def ex_stay_def ex_event_def ALL_VENT_ITEMIDS_def PEEP_ITEMIDS_def SPO2_ITEMIDS_def FIO2_ITEMIDS_def)

lemma ex_vent_data:
  "vent_data ex_tables =
     [ex_vent 10 100 220339 172800000000000 5 Peep,
      ex_vent 11 101 220339 172800360000000 5 Peep,
      ex_vent 12 102 220339 0 5 Peep,
      ex_vent 13 103 220339 (- 360000000) 5 Peep,
      ex_vent 10 100 220277 3600000000000 90 Spo2,
      ex_vent 10 100 220210 3600000000000 50 Fio2,
      ex_vent 12 102 220277 3600000000000 (- 90) Spo2,
      ex_vent 12 102 220210 3600000000000 50 Fio2]"
  unfolding vent_data_def ex_vent_events ex_adult_icu_admissions
  by (simp add: merge_left_def mk_vent_row_def classify_param_def row_stay_id_def row_hadm_id_def ex_row_def ex_adm_def ex_stay_def ex_event_def ex_vent_def PEEP_ITEMIDS_def SPO2_ITEMIDS_def FIO2_ITEMIDS_def)

lemma ex_peep_qualifying:
  "peep_qualifying ex_tables =
     [ex_vent 10 100 220339 172800000000000 5 Peep, ex_vent 12 102 220339 0 5 Peep]"
  unfolding peep_qualifying_def ex_vent_data
  by (simp add: peep_mask_def hours_from_icu_def total_seconds_def ex_vent_def)

lemma ex_peep_qualifying_admissions: "peep_qualifying_admissions ex_tables = {10, 12}"
  unfolding peep_qualifying_admissions_def ex_peep_qualifying
  by (auto simp add: List.map_filter_def ex_vent_def)

lemma ex_spo2_fio2_data:
  "spo2_fio2_data ex_tables =
     [ex_vent 10 100 220277 3600000000000 90 Spo2,
      ex_vent 10 100 220210 3600000000000 50 Fio2,
      ex_vent 12 102 220277 3600000000000 (- 90) Spo2,
      ex_vent 12 102 220210 3600000000000 50 Fio2]"
  unfolding spo2_fio2_data_def vent_data_filtered_def ex_vent_data ex_peep_qualifying_admissions
  by (simp add: ex_vent_def)


lemma ex_sf_pivot:
  "sf_pivot ex_tables =
     [\<lparr>sp_key = (10, 3600000000000), sp_spo2 = Some 90, sp_fio2 = Some (1/2)\<rparr>,
      \<lparr>sp_key = (12, 3600000000000), sp_spo2 = Some (- 90), sp_fio2 = Some (1/2)\<rparr>]"
  unfolding sf_pivot_def ex_spo2_fio2_data
  by (simp add: pivot_table_def pivot_first_def group_keys_def List.map_filter_def hadm_charttime_key_def
       convert_fio2_def fio2_mask_def ex_vent_def)

lemma ex_sf_ratios:
  "sf_ratios ex_tables =
     [\<lparr>sr_key = (10, 3600000000000), sr_spo2 = 90, sr_fio2 = 1/2, sf_ratio = 180\<rparr>,
      \<lparr>sr_key = (12, 3600000000000), sr_spo2 = - 90, sr_fio2 = 1/2, sf_ratio = - 180\<rparr>]"
  unfolding sf_ratios_def ex_sf_pivot
  by (simp add: sf_ratios_of_def)

lemma ex_final_qualifying_admissions: "final_qualifying_admissions ex_tables = {10, 12}"
  unfolding final_qualifying_admissions_def sf_qualifying_admissions_def low_sf_ratios_def
     ex_sf_ratios ex_spo2_fio2_data ex_peep_qualifying_admissions
  by auto


lemma hf_codes_eval: "hf_codes = [''4280'', ''4281'', ''4282'', ''4283'', ''4284'', ''4285'', ''4286'', ''4287'', ''4288'', ''4289'',
   ''I50'', ''I500'', ''I501'', ''I502'', ''I503'', ''I504'', ''I505'', ''I506'', ''I507'', ''I508'', ''I509'']"
  unfolding hf_codes_def by (simp add: upt_rec digit_char_def)

lemma pregnancy_codes_eval: "map str [630..<680] = [''630'', ''631'', ''632'', ''633'', ''634'', ''635'', ''636'', ''637'', ''638'', ''639'', ''640'', ''641'', ''642'', ''643'', ''644'', ''645'', ''646'', ''647'', ''648'', ''649'', ''650'', ''651'', ''652'', ''653'', ''654'', ''655'', ''656'', ''657'', ''658'', ''659'', ''660'', ''661'', ''662'', ''663'', ''664'', ''665'', ''666'', ''667'', ''668'', ''669'', ''670'', ''671'', ''672'', ''673'', ''674'', ''675'', ''676'', ''677'', ''678'', ''679'']"
  by (simp add: upt_rec digit_char_def)

lemma ex_hf_admissions: "hf_admissions ex_tables = {12}"
  unfolding hf_admissions_def hf_mask_def hf_codes_eval
  by (simp add: startswith_def ex_tables_def)

lemma ex_pregnancy_admissions: "pregnancy_admissions ex_tables = {12}"
  unfolding pregnancy_admissions_def pregnancy_mask_def pregnancy_codes_eval
  by (simp add: startswith_def ex_tables_def)

lemma ex_radiology_admissions: "radiology_admissions ex_tables = {10, 12}"
  by (auto simp add: radiology_admissions_def List.map_filter_def ex_tables_def)

lemma ex_final_cohort_admissions_w_reports: "final_cohort_admissions_w_reports ex_tables = {10}"
  unfolding final_cohort_admissions_w_reports_def final_cohort_admissions_def excluded_admissions_def
    ex_final_qualifying_admissions ex_hf_admissions ex_pregnancy_admissions ex_radiology_admissions
  by auto

lemma ex_admissions_with_icu:
  "admissions_with_icu ex_tables =
     [ex_row 1 ex_pat1 10 (ex_stay 10 100 0 172800000000000),
      ex_row 1 ex_pat1 11 (ex_stay 11 101 0 86400000000000),
      ex_row 2 ex_pat2 12 (ex_stay 12 102 0 86400000000000),
      ex_row 2 ex_pat2 13 (ex_stay 13 103 0 86400000000000)]"
  unfolding admissions_with_icu_def ex_adult_admissions
  by (simp add: merge_inner_def ex_defs)

lemma ex_cohort_icustays:
  "cohort_icustays ex_tables = icustays ex_tables"
  unfolding cohort_icustays_def ex_admissions_with_icu
  by (simp add: ex_tables_def ex_stay_def ex_row_def ex_adm_def row_hadm_id_def)

lemma ex_cohort_stay_ids:
  "cohort_stay_ids ex_tables = {100, 101, 102, 103, 104}"
  unfolding cohort_stay_ids_def ex_cohort_icustays
  by (auto simp: ex_tables_def ex_stay_def)

lemma ex_cohort_events:
  "cohort_events ex_tables =
     [(ex_event 100 220339 172800000000000 5, 5),
      (ex_event 101 220339 172800360000000 5, 5),
      (ex_event 102 220339 0 5, 5),
      (ex_event 103 220339 (- 360000000) 5, 5),
      (ex_event 100 220277 3600000000000 90, 90),
      (ex_event 100 220210 3600000000000 50, 50),
      (ex_event 102 220277 3600000000000 (- 90), - 90),
      (ex_event 102 220210 3600000000000 50, 50)]"
  unfolding cohort_events_def ex_cohort_stay_ids
  by (simp add: ex_tables_def ex_event_def ALL_VENT_ITEMIDS_def PEEP_ITEMIDS_def SPO2_ITEMIDS_def
      FIO2_ITEMIDS_def)

lemma ex_cohort_data:
  "cohort_data ex_tables =
     [ex_vent 10 100 220339 172800000000000 5 Peep,
      ex_vent 11 101 220339 172800360000000 5 Peep,
      ex_vent 12 102 220339 0 5 Peep,
      ex_vent 13 103 220339 (- 360000000) 5 Peep,
      ex_vent 10 100 220277 3600000000000 90 Spo2,
      ex_vent 10 100 220210 3600000000000 50 Fio2,
      ex_vent 12 102 220277 3600000000000 (- 90) Spo2,
      ex_vent 12 102 220210 3600000000000 50 Fio2]"
  unfolding cohort_data_def ex_cohort_events ex_cohort_icustays
  by (simp add: merge_inner_def ex_tables_def ex_event_def ex_stay_def ex_vent_def mk_cohort_row_def
      classify_param_def PEEP_ITEMIDS_def SPO2_ITEMIDS_def FIO2_ITEMIDS_def)

lemma ex_admissions_with_peep:
  "admissions_with_peep ex_tables = {10, 12}"
  unfolding admissions_with_peep_def peep_first_48h_def ex_cohort_data
  by (auto simp: peep_mask_def hours_from_icu_def total_seconds_def ex_vent_def
      List.map_filter_simps)

lemma ex_cohort_data_peep:
  "cohort_data_peep ex_tables =
     [ex_vent 10 100 220339 172800000000000 5 Peep,
      ex_vent 12 102 220339 0 5 Peep,
      ex_vent 10 100 220277 3600000000000 90 Spo2,
      ex_vent 10 100 220210 3600000000000 50 Fio2,
      ex_vent 12 102 220277 3600000000000 (- 90) Spo2,
      ex_vent 12 102 220210 3600000000000 50 Fio2]"
  unfolding cohort_data_peep_def ex_cohort_data ex_admissions_with_peep
  by (simp add: ex_vent_def)

lemma ex_spo2_data_v1:
  "spo2_data_v1 ex_tables =
     [ex_vent 10 100 220277 3600000000000 90 Spo2, ex_vent 12 102 220277 3600000000000 (- 90) Spo2]"
  unfolding spo2_data_v1_def ex_cohort_data_peep
  by (simp add: ex_vent_def)

lemma ex_fio2_data_v1:
  "fio2_data_v1 ex_tables =
     [ex_vent 10 100 220210 3600000000000 50 Fio2, ex_vent 12 102 220210 3600000000000 50 Fio2]"
  unfolding fio2_data_v1_def ex_cohort_data_peep
  by (simp add: ex_vent_def)

lemma ex_asof_v1:
  "ex_asof (spo2_data_v1 ex_tables) (map fio2_to_fraction (fio2_data_v1 ex_tables)) =
     Inr [\<lparr>as_hadm_id = 10, as_charttime = 3600000000000, valuenum_spo2 = 90, valuenum_fio2 = Some (1 / 2)\<rparr>,
          \<lparr>as_hadm_id = 12, as_charttime = 3600000000000, valuenum_spo2 = - 90, valuenum_fio2 = Some (1 / 2)\<rparr>]"
  unfolding ex_spo2_data_v1 ex_fio2_data_v1
  by (simp add: ex_asof_def fio2_to_fraction_def ex_vent_def List.map_filter_simps)

lemma ex_qualifying_admissions:
  "qualifying_admissions ex_tables
     [\<lparr>as_hadm_id = 10, as_charttime = 3600000000000, valuenum_spo2 = 90, valuenum_fio2 = Some (1 / 2)\<rparr>,
      \<lparr>as_hadm_id = 12, as_charttime = 3600000000000, valuenum_spo2 = - 90, valuenum_fio2 = Some (1 / 2)\<rparr>] =
     {10, 12}"
proof -
  have "admissions_with_low_sf
     [\<lparr>as_hadm_id = 10, as_charttime = 3600000000000, valuenum_spo2 = 90, valuenum_fio2 = Some (1 / 2)\<rparr>,
      \<lparr>as_hadm_id = 12, as_charttime = 3600000000000, valuenum_spo2 = - 90, valuenum_fio2 = Some (1 / 2)\<rparr>] =
     {10, 12}"
    by (simp add: admissions_with_low_sf_def sf_ratios_asof_def)
  then show ?thesis
    unfolding qualifying_admissions_def ex_admissions_with_peep by simp
qed

lemma ex_cohort_with_criteria:
  "cohort_with_criteria ex_asof ex_tables =
     Inr (Frame [ex_row 1 ex_pat1 10 (ex_stay 10 100 0 172800000000000),
                 ex_row 2 ex_pat2 12 (ex_stay 12 102 0 86400000000000)])"
proof -
  have "filter (\<lambda>r. row_hadm_id r \<in> {10, 12}) (admissions_with_icu ex_tables) =
     [ex_row 1 ex_pat1 10 (ex_stay 10 100 0 172800000000000),
      ex_row 2 ex_pat2 12 (ex_stay 12 102 0 86400000000000)]"
    unfolding ex_admissions_with_icu by (simp add: row_hadm_id_def ex_row_def ex_adm_def)
  then show ?thesis
    unfolding cohort_with_criteria_def ex_asof_v1
    by (simp add: ex_qualifying_admissions ex_spo2_data_v1 ex_fio2_data_v1)
qed

section \<open>The claims\<close>

lemma peep_mask_window:
  assumes "v_param_type r = Peep" "v_valuenum r \<ge> 5" "v_intime r = Some t"
  shows "peep_mask r \<longleftrightarrow> 0 \<le> v_charttime r - t \<and> v_charttime r - t \<le> 172800000000000"
proof -
  have a: "(0 \<le> total_seconds d / 3600) = (0 \<le> d)" for d
    by (simp add: total_seconds_def zero_le_divide_iff)
  have b: "(total_seconds d / 3600 \<le> 48) = (d \<le> 172800000000000)" for d
  proof -
    have "(total_seconds d / 3600 \<le> 48) = ((of_int d :: rat) \<le> of_int 172800000000000)"
      by (simp add: total_seconds_def field_simps)
    then show ?thesis by (simp only: of_int_le_iff)
  qed
  have "peep_mask r \<longleftrightarrow>
          0 \<le> total_seconds (v_charttime r - t) / 3600 \<and> total_seconds (v_charttime r - t) / 3600 \<le> 48"
    using assms by (simp add: peep_mask_def hours_from_icu_def)
  then show ?thesis by (simp only: a b)
qed

text \<open>
  Claim C8. An admission passes the PEEP-window filter exactly when some PEEP reading of
  one of its stays has a value of at least 5 and lies between 0 and 48 hours (both
  included) after that stay's ICU admission, in the optimized notebook and in the first
  one. In nanoseconds the window is the closed interval from 0 to 172800000000000: a
  reading at exactly 48 hours or at exactly 0 hours qualifies, one at 48.0001 hours or
  at -0.0001 hours does not.
\<close>
theorem peep_window_filter:
  "(h \<in> peep_qualifying_admissions T \<longleftrightarrow>
     (\<exists>e \<in> set (chartevents T). \<exists>r \<in> set (adult_icu_admissions T). \<exists>v.
        row_stay_id r = ce_stay_id e \<and> row_hadm_id r = h \<and>
        ce_itemid e \<in> set PEEP_ITEMIDS \<and> ce_valuenum e = Some v \<and> v \<ge> 5 \<and>
        0 \<le> total_seconds (ce_charttime e - intime (snd r)) / 3600 \<and>
        total_seconds (ce_charttime e - intime (snd r)) / 3600 \<le> 48)) \<and>
   (h \<in> admissions_with_peep T \<longleftrightarrow>
     (\<exists>e \<in> set (chartevents T). \<exists>s \<in> set (cohort_icustays T). \<exists>v.
        icu_stay_id s = ce_stay_id e \<and> icu_hadm_id s = h \<and>
        ce_itemid e \<in> set PEEP_ITEMIDS \<and> ce_valuenum e = Some v \<and> v \<ge> 5 \<and>
        0 \<le> total_seconds (ce_charttime e - intime s) / 3600 \<and>
        total_seconds (ce_charttime e - intime s) / 3600 \<le> 48)) \<and>
   (v_param_type x = Peep \<and> v_valuenum x \<ge> 5 \<and> v_intime x = Some t \<longrightarrow>
      (peep_mask x \<longleftrightarrow> 0 \<le> v_charttime x - t \<and> v_charttime x - t \<le> 172800000000000))"
  using peep_qualifying_admissions_iff[of h T] admissions_with_peep_iff[of h T] peep_mask_window[of x t]
  by blast

text \<open>
  On the example inputs the admissions with a reading at exactly 48 hours (10) and at
  exactly 0 hours (12) pass; those at 48.0001 hours (11) and -0.0001 hours (13) do not.
\<close>

theorem peep_window_filter_witness:
  "peep_qualifying_admissions ex_tables = {10, 12} \<and>
   admissions_with_peep ex_tables = {10, 12} \<and>
   (\<exists>e \<in> set (chartevents ex_tables). \<exists>r \<in> set (adult_icu_admissions ex_tables). \<exists>v.
        row_stay_id r = ce_stay_id e \<and> row_hadm_id r = 10 \<and>
        ce_itemid e \<in> set PEEP_ITEMIDS \<and> ce_valuenum e = Some v \<and> v \<ge> 5 \<and>
        0 \<le> total_seconds (ce_charttime e - intime (snd r)) / 3600 \<and>
        total_seconds (ce_charttime e - intime (snd r)) / 3600 \<le> 48) \<and>
   (\<exists>e \<in> set (chartevents ex_tables). \<exists>s \<in> set (cohort_icustays ex_tables). \<exists>v.
        icu_stay_id s = ce_stay_id e \<and> icu_hadm_id s = 10 \<and>
        ce_itemid e \<in> set PEEP_ITEMIDS \<and> ce_valuenum e = Some v \<and> v \<ge> 5 \<and>
        0 \<le> total_seconds (ce_charttime e - intime s) / 3600 \<and>
        total_seconds (ce_charttime e - intime s) / 3600 \<le> 48) \<and>
   peep_mask (ex_vent 10 100 220339 172800000000000 5 Peep) \<and>
   \<not> peep_mask (ex_vent 11 101 220339 172800360000000 5 Peep) \<and>
   peep_mask (ex_vent 12 102 220339 0 5 Peep) \<and>
   \<not> peep_mask (ex_vent 13 103 220339 (- 360000000) 5 Peep)"
proof -
  have m: "10 \<in> peep_qualifying_admissions ex_tables"
    by (simp add: ex_peep_qualifying_admissions)
  have n: "10 \<in> admissions_with_peep ex_tables"
    by (simp add: ex_admissions_with_peep)
  have p: "v_param_type (ex_vent h s i c 5 Peep) = Peep \<and> v_valuenum (ex_vent h s i c 5 Peep) \<ge> 5 \<and>
           v_intime (ex_vent h s i c 5 Peep) = Some 0" for h s i c
    by (simp add: ex_vent_def)
  have c: "v_charttime (ex_vent h s i c 5 Peep) - 0 = c" for h s i c
    by (simp add: ex_vent_def)
  note w = peep_window_filter[of 10 ex_tables _ 0]
  note w3 = w[THEN conjunct2, THEN conjunct2, rule_format]
  from w[THEN conjunct1] m w[THEN conjunct2, THEN conjunct1] n
    w3[OF p[of 10 100 220339 172800000000000]]
    w3[OF p[of 11 101 220339 172800360000000]]
    w3[OF p[of 12 102 220339 0]]
    w3[OF p[of 13 103 220339 "- 360000000"]]
  show ?thesis
    unfolding c by (simp add: ex_peep_qualifying_admissions ex_admissions_with_peep)
qed

lemma set_sf_ratios_of:
  "set (sf_ratios_of pv) =
     {\<lparr>sr_key = sp_key p, sr_spo2 = s, sr_fio2 = f, sf_ratio = s / f\<rparr> | p s f.
        p \<in> set pv \<and> sp_spo2 p = Some s \<and> sp_fio2 p = Some f \<and> f > 0}"
  by (auto simp: sf_ratios_of_def split: option.splits if_splits)











text \<open>
  Claim C6, amended. FiO2 unit normalization maps a value above 1 to the value divided
  by 100, which is positive, and at most 1 exactly when the value is at most 100; it
  leaves a value of at most 1 unchanged; and applying it twice equals applying it once
  whenever the first application gives a value of at most 1. On FiO2 rows the
  conversion of the first notebook is the same function.
\<close>
theorem fio2_normalization:
  "v_param_type r = Fio2 \<Longrightarrow>
     (v_valuenum r > 1 \<longrightarrow>
        v_valuenum (convert_fio2 r) = v_valuenum r / 100 \<and> 0 < v_valuenum (convert_fio2 r) \<and>
        (v_valuenum (convert_fio2 r) \<le> 1 \<longleftrightarrow> v_valuenum r \<le> 100)) \<and>
     (v_valuenum r \<le> 1 \<longrightarrow> convert_fio2 r = r) \<and>
     (v_valuenum (convert_fio2 r) \<le> 1 \<longrightarrow> convert_fio2 (convert_fio2 r) = convert_fio2 r) \<and>
     fio2_to_fraction r = convert_fio2 r"
  by (auto simp: convert_fio2_def fio2_mask_def fio2_to_fraction_def)

text \<open>FiO2 50 becomes 0.5 and stays there; FiO2 0.4 is unchanged.\<close>

theorem fio2_normalization_witness:
  "v_valuenum (convert_fio2 (ex_vent 10 100 220210 3600000000000 50 Fio2)) = 1/2 \<and>
   convert_fio2 (convert_fio2 (ex_vent 10 100 220210 3600000000000 50 Fio2)) =
     convert_fio2 (ex_vent 10 100 220210 3600000000000 50 Fio2) \<and>
   convert_fio2 (ex_vent 10 100 220210 3600000000000 (2/5) Fio2) = ex_vent 10 100 220210 3600000000000 (2/5) Fio2"
proof -
  have p: "v_param_type (ex_vent 10 100 220210 3600000000000 v Fio2) = Fio2" for v
    by (simp add: ex_vent_def)
  have v: "v_valuenum (ex_vent 10 100 220210 3600000000000 v Fio2) = v" for v
    by (simp add: ex_vent_def)
  from fio2_normalization[OF p[of 50]] fio2_normalization[OF p[of "2/5"]]
  show ?thesis unfolding v by simp
qed

text \<open>A value above 100 is not mapped into the unit interval: FiO2 150 becomes 1.5.\<close>

theorem fio2_normalization_counterexample:
  "v_param_type (ex_vent 10 100 220210 3600000000000 150 Fio2) = Fio2 \<and>
   v_valuenum (ex_vent 10 100 220210 3600000000000 150 Fio2) > 1 \<and>
   v_valuenum (convert_fio2 (ex_vent 10 100 220210 3600000000000 150 Fio2)) = 3/2 \<and>
   \<not> (v_valuenum (convert_fio2 (ex_vent 10 100 220210 3600000000000 150 Fio2)) \<le> 1)"
  by (simp add: convert_fio2_def fio2_mask_def ex_vent_def)

lemma adult_icu_hadm_ids:
  "row_hadm_id ` set (adult_icu_admissions T) = adult_admission_ids T \<inter> icu_admission_ids T"
  unfolding adult_icu_admissions_def set_merge_inner adult_admission_ids_def icu_admission_ids_def
  by (force simp: row_hadm_id_def image_iff)

lemma peep_subset_adult_icu:
  "peep_qualifying_admissions T \<subseteq> adult_admission_ids T \<inter> icu_admission_ids T"
proof
  fix h assume "h \<in> peep_qualifying_admissions T"
  then obtain r where "r \<in> set (adult_icu_admissions T)" "row_hadm_id r = h"
    unfolding peep_qualifying_admissions_iff by blast
  then have "h \<in> row_hadm_id ` set (adult_icu_admissions T)" by blast
  then show "h \<in> adult_admission_ids T \<inter> icu_admission_ids T"
    by (simp only: adult_icu_hadm_ids)
qed

lemma final_qualifying_admissions_eq:
  "final_qualifying_admissions T = peep_qualifying_admissions T \<inter> sf_qualifying_admissions T"
proof (cases "spo2_fio2_data T = []")
  case True
  then have "sf_qualifying_admissions T = {}"
    by (simp add: sf_qualifying_admissions_def low_sf_ratios_def sf_ratios_def sf_pivot_def
        pivot_table_def group_keys_def List.map_filter_def sf_ratios_of_def)
  with True show ?thesis by (simp add: final_qualifying_admissions_def)
next
  case False
  then show ?thesis by (simp add: final_qualifying_admissions_def)
qed

lemma final_cohort_admissions_w_reports_eq:
  "final_cohort_admissions_w_reports T =
     (peep_qualifying_admissions T \<inter> sf_qualifying_admissions T \<inter> radiology_admissions T) -
     (hf_admissions T \<union> pregnancy_admissions T)"
  unfolding final_cohort_admissions_w_reports_def final_cohort_admissions_def
    excluded_admissions_def final_qualifying_admissions_eq
  by auto

lemma foldl_spec_apply_stage:
  "foldl spec_apply_stage X st =
     {x \<in> X. (\<forall>S. Include S \<in> set st \<longrightarrow> x \<in> S) \<and> (\<forall>S. Exclude S \<in> set st \<longrightarrow> x \<notin> S)}"
proof (induction st arbitrary: X)
  case Nil
  then show ?case by simp
next
  case (Cons a st)
  show ?case
    by (cases a) (auto simp: Cons.IH)
qed

lemma final_cohort_hadm_ids:
  "(case final_cohort T of DataFrame_empty \<Rightarrow> {}
     | Frame rs \<Rightarrow> set (map (\<lambda>r. row_hadm_id (fc_row r)) rs)) = final_cohort_admissions_w_reports T"
proof (cases "final_cohort_admissions_w_reports T = {}")
  case True
  then show ?thesis by (simp add: final_cohort_def)
next
  case False
  have sub: "final_cohort_admissions_w_reports T \<subseteq> row_hadm_id ` set (adult_icu_admissions T)"
    unfolding adult_icu_hadm_ids final_cohort_admissions_w_reports_eq
    using peep_subset_adult_icu[of T] by blast
  have "set (map (\<lambda>r. row_hadm_id (fc_row r))
          (map (final_cohort_of T)
             (filter (\<lambda>r. row_hadm_id r \<in> final_cohort_admissions_w_reports T) (adult_icu_admissions T)))) =
        final_cohort_admissions_w_reports T"
    using sub by (auto simp: final_cohort_of_def image_iff)
  with False show ?thesis by (simp add: final_cohort_def)
qed

text \<open>
  Claim C5. The final qualifying admission-identifier set equals the intersection of
  the inclusion-stage sets (adult, ICU stay, PEEP, S/F ratio, radiology report) minus
  the union of the heart-failure and pregnancy sets. Applying the seven stages one at a
  time in any order gives the same set, so subtracting the two exclusion sets one after
  the other is the single subtraction of their union. The admissions of the final
  cohort's rows are exactly this set.
\<close>

theorem final_cohort_set_algebra:
  "final_cohort_admissions_w_reports T =
     (adult_admission_ids T \<inter> icu_admission_ids T \<inter> peep_qualifying_admissions T \<inter>
      sf_qualifying_admissions T \<inter> radiology_admissions T) -
     (hf_admissions T \<union> pregnancy_admissions T) \<and>
   (mset stages =
      mset [Include (adult_admission_ids T), Include (icu_admission_ids T),
            Include (peep_qualifying_admissions T), Include (sf_qualifying_admissions T),
            Include (radiology_admissions T),
            Exclude (hf_admissions T), Exclude (pregnancy_admissions T)]
    \<longrightarrow> spec_run_stages stages = final_cohort_admissions_w_reports T) \<and>
   (case final_cohort T of DataFrame_empty \<Rightarrow> {}
     | Frame rs \<Rightarrow> set (map (\<lambda>r. row_hadm_id (fc_row r)) rs)) = final_cohort_admissions_w_reports T"
proof (intro conjI impI)
  show 1: "final_cohort_admissions_w_reports T =
     (adult_admission_ids T \<inter> icu_admission_ids T \<inter> peep_qualifying_admissions T \<inter>
      sf_qualifying_admissions T \<inter> radiology_admissions T) -
     (hf_admissions T \<union> pregnancy_admissions T)"
    unfolding final_cohort_admissions_w_reports_eq using peep_subset_adult_icu[of T] by blast
  assume "mset stages =
      mset [Include (adult_admission_ids T), Include (icu_admission_ids T),
            Include (peep_qualifying_admissions T), Include (sf_qualifying_admissions T),
            Include (radiology_admissions T),
            Exclude (hf_admissions T), Exclude (pregnancy_admissions T)]"
  then have "set stages =
      set [Include (adult_admission_ids T), Include (icu_admission_ids T),
            Include (peep_qualifying_admissions T), Include (sf_qualifying_admissions T),
            Include (radiology_admissions T),
            Exclude (hf_admissions T), Exclude (pregnancy_admissions T)]"
    by (rule mset_eq_setD)
  then show "spec_run_stages stages = final_cohort_admissions_w_reports T"
    unfolding spec_run_stages_def foldl_spec_apply_stage 1 by auto
next
  show "(case final_cohort T of DataFrame_empty \<Rightarrow> {}
     | Frame rs \<Rightarrow> set (map (\<lambda>r. row_hadm_id (fc_row r)) rs)) = final_cohort_admissions_w_reports T"
    by (rule final_cohort_hadm_ids)
qed

text \<open>
  The stages in another order on the example inputs: admission 12 passes every inclusion
  stage, carries both a heart-failure and a pregnancy code, and is absent from the result.
\<close>

theorem final_cohort_set_algebra_witness:
  "spec_run_stages
     [Exclude (pregnancy_admissions ex_tables), Include (radiology_admissions ex_tables),
      Include (peep_qualifying_admissions ex_tables), Exclude (hf_admissions ex_tables),
      Include (icu_admission_ids ex_tables), Include (sf_qualifying_admissions ex_tables),
      Include (adult_admission_ids ex_tables)] = {10} \<and>
   12 \<in> hf_admissions ex_tables \<and> 12 \<in> pregnancy_admissions ex_tables \<and>
   12 \<in> peep_qualifying_admissions ex_tables \<inter> sf_qualifying_admissions ex_tables \<inter> radiology_admissions ex_tables \<and>
   12 \<notin> final_cohort_admissions_w_reports ex_tables"
proof -
  have m: "mset [Exclude (pregnancy_admissions ex_tables), Include (radiology_admissions ex_tables),
      Include (peep_qualifying_admissions ex_tables), Exclude (hf_admissions ex_tables),
      Include (icu_admission_ids ex_tables), Include (sf_qualifying_admissions ex_tables),
      Include (adult_admission_ids ex_tables)] =
    mset [Include (adult_admission_ids ex_tables), Include (icu_admission_ids ex_tables),
            Include (peep_qualifying_admissions ex_tables), Include (sf_qualifying_admissions ex_tables),
            Include (radiology_admissions ex_tables),
            Exclude (hf_admissions ex_tables), Exclude (pregnancy_admissions ex_tables)]"
    by simp
  have sf: "sf_qualifying_admissions ex_tables = {10, 12}"
    unfolding sf_qualifying_admissions_def low_sf_ratios_def ex_sf_ratios by auto
  from final_cohort_set_algebra[of ex_tables, THEN conjunct2, THEN conjunct1, rule_format, OF m]
  show ?thesis
    by (simp add: ex_final_cohort_admissions_w_reports ex_hf_admissions ex_pregnancy_admissions
        ex_peep_qualifying_admissions ex_radiology_admissions sf)
qed

lemma filter_swap: "filter P (filter Q xs) = filter Q (filter P xs)"
  by (induction xs) auto

lemma filter_merge_inner:
  "filter (\<lambda>r. ka (fst r) = h) (merge_inner ka kb xs ys) =
     merge_inner ka kb (filter (\<lambda>x. ka x = h) xs) ys"
  by (induction xs) (auto simp: merge_inner_def)

lemma merge_inner_single:
  "merge_inner ka kb [a] ys = map (\<lambda>y. (a, y)) (filter (\<lambda>y. kb y = ka a) ys)"
  by (simp add: merge_inner_def)

lemma filter_drop_duplicates:
  "filter (\<lambda>s. k s = h) (drop_duplicates k xs) =
     (case filter (\<lambda>s. k s = h) xs of [] \<Rightarrow> [] | x # _ \<Rightarrow> [x])"
proof (induction k xs rule: drop_duplicates.induct)
  case (1 k)
  then show ?case by simp
next
  case (2 k x xs)
  have a: "filter (\<lambda>s. k s = h) (filter (\<lambda>y. k y \<noteq> k x) xs) =
           (if k x = h then [] else filter (\<lambda>s. k s = h) xs)"
    by (induction xs) auto
  show ?case
  proof (cases "k x = h")
    case True
    with 2 a have "filter (\<lambda>s. k s = h) (drop_duplicates k (filter (\<lambda>y. k y \<noteq> k x) xs)) = []"
      by (simp del: filter_filter)
    with True show ?thesis by simp
  next
    case False
    with 2 a have "filter (\<lambda>s. k s = h) (drop_duplicates k (filter (\<lambda>y. k y \<noteq> k x) xs)) =
        (case filter (\<lambda>s. k s = h) xs of [] \<Rightarrow> [] | x # _ \<Rightarrow> [x])"
      by (simp del: filter_filter)
    with False show ?thesis by simp
  qed
qed

lemma rows_of_admission:
  assumes "filter (\<lambda>r. adm_hadm_id (pd_adm r) = h) (adult_admissions T) = [a]"
  shows "filter (\<lambda>r. row_hadm_id r = h) (adult_icu_admissions T) =
           map (\<lambda>s. (a, s)) (filter (\<lambda>s. icu_hadm_id s = h) (icustays T))"
    and "filter (\<lambda>r. row_hadm_id r = h) (admissions_with_icu T) =
           map (\<lambda>s. (a, s)) (case filter (\<lambda>s. icu_hadm_id s = h) (icustays T) of [] \<Rightarrow> [] | x # _ \<Rightarrow> [x])"
proof -
  have "a \<in> set (filter (\<lambda>r. adm_hadm_id (pd_adm r) = h) (adult_admissions T))"
    using assms by simp
  then have ha: "adm_hadm_id (pd_adm a) = h" by simp
  show "filter (\<lambda>r. row_hadm_id r = h) (adult_icu_admissions T) =
           map (\<lambda>s. (a, s)) (filter (\<lambda>s. icu_hadm_id s = h) (icustays T))"
    unfolding adult_icu_admissions_def row_hadm_id_def
    using filter_merge_inner[of "\<lambda>r. adm_hadm_id (pd_adm r)" h icu_hadm_id "adult_admissions T" "icustays T"]
    by (simp add: assms merge_inner_single ha)
  show "filter (\<lambda>r. row_hadm_id r = h) (admissions_with_icu T) =
           map (\<lambda>s. (a, s)) (case filter (\<lambda>s. icu_hadm_id s = h) (icustays T) of [] \<Rightarrow> [] | x # _ \<Rightarrow> [x])"
    unfolding admissions_with_icu_def row_hadm_id_def
    using filter_merge_inner[of "\<lambda>r. adm_hadm_id (pd_adm r)" h icu_hadm_id "adult_admissions T"
        "drop_duplicates icu_hadm_id (icustays T)"]
    by (simp add: assms merge_inner_single ha filter_drop_duplicates)
qed

lemma cohort_definition_v1_sublist:
  assumes "cohort_definition_v1 asof T = Inr (Frame rs)"
  shows "\<exists>P. rs = filter P (admissions_with_icu T)"
proof -
  from assms obtain cwc cwr where cwr: "cohort_with_criteria asof T = Inr cwc"
      "cohort_with_radiology T cwc = Inr cwr" "final_cohort_v1 T cwr = Inr (Frame rs)"
    by (auto simp: cohort_definition_v1_def split: sum.splits)
  from cwr(3) obtain rs1 where rs1: "cwr = Frame rs1"
      "rs = filter (\<lambda>r. \<not> (row_hadm_id r \<in> hf_admissions T) \<and> \<not> (row_hadm_id r \<in> pregnancy_admissions T)) rs1"
    by (cases cwr) (auto simp: final_cohort_v1_def split: if_splits)
  from cwr(2) rs1(1) obtain rs0 where rs0: "cwc = Frame rs0"
      "rs1 = filter (\<lambda>r. row_hadm_id r \<in> admissions_with_radiology T) rs0"
    by (cases cwc) (auto simp: cohort_with_radiology_def split: if_splits)
  from cwr(1) rs0(1) obtain Q where "rs0 = filter Q (admissions_with_icu T)"
    by (auto simp: cohort_with_criteria_def split: if_splits sum.splits)
  with rs0(2) rs1(2) have "rs = filter (\<lambda>r. (Q r \<and> row_hadm_id r \<in> admissions_with_radiology T) \<and>
        \<not> (row_hadm_id r \<in> hf_admissions T) \<and> \<not> (row_hadm_id r \<in> pregnancy_admissions T)) (admissions_with_icu T)"
    by (simp only: filter_filter)
  then show ?thesis by blast
qed

text \<open>
  Claim C4, amended. In the optimized notebook, an admission with two ICU stays that
  survives all filter stages has exactly two rows in the final cohort, one per stay in
  the order of the stay table, each with its own length of stay: stay end minus stay
  start, in days. The first notebook keeps only the first stay of an admission before
  joining, so there the admission has one row, that of its first stay, and every later
  frame holds at most one row for it.
\<close>

theorem final_cohort_one_row_per_stay:
  assumes "h \<in> final_cohort_admissions_w_reports T"
      and "filter (\<lambda>r. adm_hadm_id (pd_adm r) = h) (adult_admissions T) = [a]"
      and "filter (\<lambda>s. icu_hadm_id s = h) (icustays T) = [s1, s2]"
  shows "(\<exists>rs. final_cohort T = Frame rs \<and>
            filter (\<lambda>r. row_hadm_id (fc_row r) = h) rs =
              [final_cohort_of T (a, s1), final_cohort_of T (a, s2)]) \<and>
         icu_los_days (final_cohort_of T (a, s1)) = total_seconds (outtime s1 - intime s1) / 86400 \<and>
         icu_los_days (final_cohort_of T (a, s2)) = total_seconds (outtime s2 - intime s2) / 86400 \<and>
         filter (\<lambda>r. row_hadm_id r = h) (admissions_with_icu T) = [(a, s1)] \<and>
         (\<forall>rs. cohort_definition_v1 asof T = Inr (Frame rs) \<longrightarrow>
               length (filter (\<lambda>r. row_hadm_id r = h) rs) \<le> 1)"
proof (intro conjI allI impI)
  let ?F = "final_cohort_admissions_w_reports T"
  let ?rs = "map (final_cohort_of T) (filter (\<lambda>r. row_hadm_id r \<in> ?F) (adult_icu_admissions T))"
  have fc: "final_cohort T = Frame ?rs"
    using assms(1) by (auto simp: final_cohort_def)
  have b: "filter (\<lambda>r. row_hadm_id r = h) (filter (\<lambda>r. row_hadm_id r \<in> ?F) xs) =
           filter (\<lambda>r. row_hadm_id r = h) xs" for xs
    using assms(1) by (induction xs) auto
  have "filter (\<lambda>r. row_hadm_id (fc_row r) = h) ?rs =
        map (final_cohort_of T)
          (filter (\<lambda>r. row_hadm_id r = h) (filter (\<lambda>r. row_hadm_id r \<in> ?F) (adult_icu_admissions T)))"
    by (simp add: filter_map comp_def final_cohort_of_def del: filter_filter)
  also have "\<dots> = map (final_cohort_of T) (filter (\<lambda>r. row_hadm_id r = h) (adult_icu_admissions T))"
    by (simp only: b)
  also have "\<dots> = [final_cohort_of T (a, s1), final_cohort_of T (a, s2)]"
    by (simp add: rows_of_admission(1)[OF assms(2)] assms(3))
  finally show "\<exists>rs. final_cohort T = Frame rs \<and>
            filter (\<lambda>r. row_hadm_id (fc_row r) = h) rs =
              [final_cohort_of T (a, s1), final_cohort_of T (a, s2)]"
    using fc by blast
  show "icu_los_days (final_cohort_of T (a, s1)) = total_seconds (outtime s1 - intime s1) / 86400"
       "icu_los_days (final_cohort_of T (a, s2)) = total_seconds (outtime s2 - intime s2) / 86400"
    by (simp_all add: final_cohort_of_def)
  show one: "filter (\<lambda>r. row_hadm_id r = h) (admissions_with_icu T) = [(a, s1)]"
    by (simp add: rows_of_admission(2)[OF assms(2)] assms(3))
  fix rs assume "cohort_definition_v1 asof T = Inr (Frame rs)"
  then obtain P where "rs = filter P (admissions_with_icu T)"
    using cohort_definition_v1_sublist by blast
  then have "filter (\<lambda>r. row_hadm_id r = h) rs = filter P [(a, s1)]"
    using one filter_swap[of "\<lambda>r. row_hadm_id r = h" P "admissions_with_icu T"] by simp
  then show "length (filter (\<lambda>r. row_hadm_id r = h) rs) \<le> 1"
    by simp
qed

lemma ex_icustays_10:
  "filter (\<lambda>s. icu_hadm_id s = 10) (icustays ex_tables) =
     [ex_stay 10 100 0 172800000000000, ex_stay 10 104 259200000000000 388800000000000]"
  by (simp add: ex_tables_def ex_stay_def)

lemma ex_adult_admissions_10:
  "filter (\<lambda>r. adm_hadm_id (pd_adm r) = 10) (adult_admissions ex_tables) =
     [\<lparr>pd_adm = ex_adm 1 10, pd_pat = Some ex_pat1\<rparr>]"
  unfolding ex_adult_admissions by (simp add: ex_adm_def)

text \<open>
  Admission 10 of the example inputs has the stays 100 (two days) and 104 (a day and a
  half): two rows in the optimized notebook's cohort, one row in the first notebook.
\<close>

theorem final_cohort_one_row_per_stay_witness:
  "(\<exists>rs. final_cohort ex_tables = Frame rs \<and>
      map (\<lambda>r. (row_stay_id (fc_row r), icu_los_days r))
        (filter (\<lambda>r. row_hadm_id (fc_row r) = 10) rs) = [(100, 2), (104, 3 / 2)]) \<and>
   map row_stay_id (filter (\<lambda>r. row_hadm_id r = 10) (admissions_with_icu ex_tables)) = [100]"
proof -
  note w = final_cohort_one_row_per_stay[of 10 ex_tables, OF _ ex_adult_admissions_10 ex_icustays_10]
  have m: "10 \<in> final_cohort_admissions_w_reports ex_tables"
    by (simp add: ex_final_cohort_admissions_w_reports)
  from w[OF m, THEN conjunct1] obtain rs where rs: "final_cohort ex_tables = Frame rs"
     "filter (\<lambda>r. row_hadm_id (fc_row r) = 10) rs =
        [final_cohort_of ex_tables (\<lparr>pd_adm = ex_adm 1 10, pd_pat = Some ex_pat1\<rparr>, ex_stay 10 100 0 172800000000000),
         final_cohort_of ex_tables (\<lparr>pd_adm = ex_adm 1 10, pd_pat = Some ex_pat1\<rparr>,
            ex_stay 10 104 259200000000000 388800000000000)]"
    by blast
  have 1: "map (\<lambda>r. (row_stay_id (fc_row r), icu_los_days r))
        (filter (\<lambda>r. row_hadm_id (fc_row r) = 10) rs) = [(100, 2), (104, 3 / 2)]"
    unfolding rs(2) by (simp add: final_cohort_of_def row_stay_id_def ex_stay_def total_seconds_def)
  have 2: "map row_stay_id (filter (\<lambda>r. row_hadm_id r = 10) (admissions_with_icu ex_tables)) = [100]"
    using w[OF m, THEN conjunct2, THEN conjunct2, THEN conjunct2, THEN conjunct1]
    by (simp add: row_stay_id_def ex_stay_def)
  from rs(1) 1 have "\<exists>rs. final_cohort ex_tables = Frame rs \<and>
      map (\<lambda>r. (row_stay_id (fc_row r), icu_los_days r))
        (filter (\<lambda>r. row_hadm_id (fc_row r) = 10) rs) = [(100, 2), (104, 3 / 2)]"
    by (intro exI[of _ rs] conjI)
  from this 2 show ?thesis by (rule conjI)
qed

text \<open>
  The first notebook on the example inputs: admission 10 has two ICU stays, meets every
  criterion, and the final cohort holds one row for it, that of stay 100.
\<close>

theorem first_notebook_one_row_counterexample:
  "filter (\<lambda>s. icu_hadm_id s = 10) (icustays ex_tables) =
     [ex_stay 10 100 0 172800000000000, ex_stay 10 104 259200000000000 388800000000000] \<and>
   cohort_definition_v1 ex_asof ex_tables =
     Inr (Frame [ex_row 1 ex_pat1 10 (ex_stay 10 100 0 172800000000000)])"
  unfolding cohort_definition_v1_def ex_cohort_with_criteria
  by (simp add: ex_icustays_10 cohort_with_radiology_def final_cohort_v1_def admissions_with_radiology_def
      ex_hf_admissions ex_pregnancy_admissions row_hadm_id_def ex_row_def ex_adm_def
      radiology_admissions_def[symmetric] ex_radiology_admissions)

lemma final_cohort_empty:
  assumes "final_cohort_admissions_w_reports T = {}"
  shows "cohort_definition T =
           Inr \<lparr>run_final_cohort = DataFrame_empty, run_summary = None, run_saved = None\<rparr>"
  using assms
  by (simp add: cohort_definition_def final_cohort_def check_duplicates_def summary_statistics_def
      save_cohort_def)

lemma adult_icu_empty_peep_empty:
  assumes "adult_icu_admissions T = []"
  shows "peep_qualifying_admissions T = {}"
  using peep_subset_adult_icu[of T] adult_icu_hadm_ids[of T] assms by auto

lemma empty_stage_final_empty:
  assumes "adult_admissions T = [] \<or> adult_icu_admissions T = [] \<or> peep_qualifying_admissions T = {} \<or>
    sf_qualifying_admissions T = {} \<or> final_qualifying_admissions T = {} \<or>
    final_cohort_admissions T = {} \<or> final_cohort_admissions_w_reports T = {}"
  shows "final_cohort_admissions_w_reports T = {}"
proof -
  have a: "adult_admissions T = [] \<Longrightarrow> adult_icu_admissions T = []"
    by (simp add: adult_icu_admissions_def merge_inner_def)
  have b: "final_qualifying_admissions T = {} \<Longrightarrow> final_cohort_admissions T = {}"
    by (simp add: final_cohort_admissions_def)
  have c: "final_cohort_admissions T = {} \<Longrightarrow> final_cohort_admissions_w_reports T = {}"
    by (simp add: final_cohort_admissions_w_reports_def)
  have d: "peep_qualifying_admissions T = {} \<or> sf_qualifying_admissions T = {} \<Longrightarrow>
           final_qualifying_admissions T = {}"
    unfolding final_qualifying_admissions_eq by auto
  from assms a b c d adult_icu_empty_peep_empty[of T] show ?thesis by blast
qed

lemma cohort_with_radiology_total: "\<exists>cwr. cohort_with_radiology T c = Inr cwr"
  by (cases c) (simp_all add: cohort_with_radiology_def)

lemma no_icu_no_cohort_data:
  assumes "admissions_with_icu T = []"
  shows "cohort_data T = []"
proof -
  from assms have "cohort_icustays T = []" by (simp add: cohort_icustays_def)
  then show ?thesis by (simp add: cohort_data_def merge_inner_def)
qed

lemma no_peep_no_cohort_data_peep:
  assumes "admissions_with_peep T = {}"
  shows "cohort_data_peep T = []"
  using assms by (simp add: cohort_data_peep_def filter_empty_conv split: option.splits)

lemma ards_run_empty:
  assumes "len (ards_sf_ratios base ce) = 0"
  shows "ards_identification_run detect base ce rad = Inl NameError"
  using assms by (simp add: ards_identification_run_def clear_sf_ratios_def)

lemma sf_events_empty_base: "sf_events [] ce = []"
  by (induction ce) (simp_all add: sf_events_def split: option.splits)

lemma ards_sf_ratios_empty_base: "len (ards_sf_ratios [] ce) = 0"
  by (simp add: ards_sf_ratios_def spo2_data_def fio2_data_def sf_data_60min_def sf_data_def
      sf_events_empty_base merge_left_def)

lemma ards_sf_ratios_no_events: "len (ards_sf_ratios base []) = 0"
  by (simp add: ards_sf_ratios_def spo2_data_def fio2_data_def sf_data_60min_def sf_data_def
      sf_events_def merge_left_def)

lemma run_all_raises: "\<exists>e. cohort_definition_v1_run_all asof T = Inl e"
proof (cases "cohort_with_criteria asof T")
  case (Inl e)
  then show ?thesis by (simp add: cohort_definition_v1_run_all_def)
next
  case (Inr cwc)
  obtain cwr where "cohort_with_radiology T cwc = Inr cwr"
    using cohort_with_radiology_total by blast
  with Inr show ?thesis by (simp add: cohort_definition_v1_run_all_def)
qed

lemma run_all_empty:
  assumes "spo2_data_v1 T = [] \<or> fio2_data_v1 T = []"
  shows "cohort_definition_v1_run_all asof T = Inl NameError"
proof -
  from assms have "cohort_with_criteria asof T = Inr DataFrame_empty"
    by (auto simp: cohort_with_criteria_def)
  then show ?thesis
    by (simp add: cohort_definition_v1_run_all_def cohort_with_radiology_def)
qed

lemma vent_df_chunked_empty:
  assumes "\<forall>c \<in> set chunks. vent_df cohort_stays c = []"
  shows "vent_df_chunked cohort_stays chunks = Inl ValueError"
proof -
  from assms have "filter (\<lambda>chunk_filtered. length chunk_filtered > 0) (map (vent_df cohort_stays) chunks) = []"
    by (simp add: filter_empty_conv)
  then show ?thesis by (simp add: vent_df_chunked_def pd_concat_def)
qed

text \<open>
  Claim C9. If any filter stage of the optimized cohort notebook yields nothing (no
  adult admission, no adult admission with a stay, no PEEP-qualifying admission, no
  admission with a low S/F ratio, nothing left after the exclusions or after the
  radiology filter), the run completes without an error: the final cohort is the empty
  frame, and the summary and the save are skipped. The other notebooks do not: the
  optimized ARDS notebook raises \<open>NameError\<close> whenever the ratio frame is empty (as it is
  for an empty base cohort and for a cohort without readings); the first cohort
  notebook, run in order, always ends with an error, \<open>NameError\<close> when there is no SpO2
  or no FiO2 reading; and the Berlin notebook raises \<open>ValueError\<close> when no chart event
  belongs to the cohort.
\<close>

theorem empty_stage_handling:
  "(adult_admissions T = [] \<or> adult_icu_admissions T = [] \<or> peep_qualifying_admissions T = {} \<or>
    sf_qualifying_admissions T = {} \<or> final_qualifying_admissions T = {} \<or>
    final_cohort_admissions T = {} \<or> final_cohort_admissions_w_reports T = {}
    \<longrightarrow> cohort_definition T =
          Inr \<lparr>run_final_cohort = DataFrame_empty, run_summary = None, run_saved = None\<rparr>) \<and>
   (len (ards_sf_ratios base ce) = 0
    \<longrightarrow> ards_identification_run detect base ce rad = Inl NameError) \<and>
   len (ards_sf_ratios [] ce) = 0 \<and>
   len (ards_sf_ratios base []) = 0 \<and>
   (spo2_data_v1 T = [] \<or> fio2_data_v1 T = []
    \<longrightarrow> cohort_definition_v1_run_all asof T = Inl NameError) \<and>
   (\<exists>e. cohort_definition_v1_run_all asof T = Inl e) \<and>
   ((\<forall>c \<in> set chunks. vent_df cohort_stays c = [])
    \<longrightarrow> vent_df_chunked cohort_stays chunks = Inl ValueError)"
  using final_cohort_empty[OF empty_stage_final_empty, of T]
    ards_run_empty[of base ce detect rad] ards_sf_ratios_empty_base[of ce] ards_sf_ratios_no_events[of base]
    run_all_empty[of T asof] run_all_raises[of asof T] vent_df_chunked_empty[of chunks cohort_stays]
  by blast

text \<open>
  The example inputs without radiology reports in the optimized cohort notebook; the
  ARDS notebook on the example cohort without chart events and on the empty cohort; the
  first notebook without admissions; the Berlin notebook with an empty cohort.
\<close>

theorem empty_stage_handling_witness:
  "cohort_definition (ex_tables\<lparr>radiology := []\<rparr>) =
     Inr \<lparr>run_final_cohort = DataFrame_empty, run_summary = None, run_saved = None\<rparr> \<and>
   ards_identification_run ex_detect ex_base [] ex_reports = Inl NameError \<and>
   ards_identification_run ex_detect [] ex_sf_chartevents ex_reports = Inl NameError \<and>
   cohort_definition_v1_run_all ex_asof (ex_tables\<lparr>admissions := []\<rparr>) = Inl NameError \<and>
   vent_df_chunked [] [[\<lparr>vd_hadm_id = 10, vd_stay_id = 100, vd_itemid = 220339, vd_charttime = 0,
                         vd_valuenum = Some 5\<rparr>]] = Inl ValueError"
proof -
  let ?T = "ex_tables\<lparr>radiology := []\<rparr>"
  let ?U = "ex_tables\<lparr>admissions := []\<rparr>"
  let ?c = "[[\<lparr>vd_hadm_id = 10, vd_stay_id = 100, vd_itemid = 220339, vd_charttime = 0,
               vd_valuenum = Some 5\<rparr>]]"
  have r: "final_cohort_admissions_w_reports ?T = {}"
    by (simp add: final_cohort_admissions_w_reports_def radiology_admissions_def List.map_filter_def)
  have a: "adult_admissions ?U = []"
    by (simp add: adult_admissions_def patient_data_def merge_left_def)
  have i: "admissions_with_icu ?U = []"
    by (simp add: admissions_with_icu_def a merge_inner_def)
  have s: "spo2_data_v1 ?U = []"
    by (simp add: spo2_data_v1_def no_peep_no_cohort_data_peep admissions_with_peep_def
        peep_first_48h_def no_icu_no_cohort_data[OF i] List.map_filter_simps)
  have v: "\<forall>c \<in> set ?c. vent_df [] c = []"
    by (simp add: vent_df_def)
  from empty_stage_handling[of ?T, THEN conjunct1] r
  have 1: "cohort_definition ?T =
     Inr \<lparr>run_final_cohort = DataFrame_empty, run_summary = None, run_saved = None\<rparr>" by blast
  note w = empty_stage_handling[THEN conjunct2]
  from w[of ex_base "[]" ex_detect ex_reports, THEN conjunct1]
    w[of ex_base "[]", THEN conjunct2, THEN conjunct2, THEN conjunct1]
  have 2: "ards_identification_run ex_detect ex_base [] ex_reports = Inl NameError" by blast
  from w[of "[]" ex_sf_chartevents ex_detect ex_reports, THEN conjunct1]
    w[of "[]" ex_sf_chartevents, THEN conjunct2, THEN conjunct1]
  have 3: "ards_identification_run ex_detect [] ex_sf_chartevents ex_reports = Inl NameError" by blast
  from w[of _ _ _ _ ?U ex_asof, THEN conjunct2, THEN conjunct2, THEN conjunct2, THEN conjunct1] s
  have 4: "cohort_definition_v1_run_all ex_asof ?U = Inl NameError" by blast
  from w[of _ _ _ _ _ _ ?c "[]", THEN conjunct2, THEN conjunct2, THEN conjunct2, THEN conjunct2,
      THEN conjunct2] v
  have 5: "vent_df_chunked [] ?c = Inl ValueError" by blast
  from 1 2 3 4 5 show ?thesis by (intro conjI)
qed

lemma agg_min_eq: "xs \<noteq> [] \<Longrightarrow> agg_min xs = Some (Min (set xs))"
proof (induction xs)
  case Nil
  then show ?case by simp
next
  case (Cons x xs)
  show ?case
  proof (cases "xs = []")
    case True
    then show ?thesis by simp
  next
    case False
    with Cons have "agg_min xs = Some (Min (set xs))" by simp
    with False show ?thesis by (simp add: Min_insert)
  qed
qed

lemma set_group_keys: "set (group_keys k xs) = k ` set xs"
  by (simp add: group_keys_def)

lemma distinct_group_keys: "distinct (group_keys k xs)"
  by (simp add: group_keys_def)

lemma filter_eq_distinct:
  "distinct ks \<Longrightarrow> h \<in> set ks \<Longrightarrow> filter (\<lambda>k. k = h) ks = [h]"
  by (induction ks) (auto simp: filter_empty_conv)

lemma filter_key_distinct:
  "distinct (map kb ys) \<Longrightarrow> length (filter (\<lambda>y. kb y = k) ys) \<le> 1"
proof (induction ys)
  case Nil
  then show ?case by simp
next
  case (Cons y ys)
  show ?case
  proof (cases "kb y = k")
    case True
    from Cons.prems have "kb y \<notin> kb ` set ys" by simp
    then have "\<forall>z \<in> set ys. kb z \<noteq> kb y" by (metis image_eqI)
    with True have "filter (\<lambda>y. kb y = k) ys = []"
      by (simp add: filter_empty_conv)
    with True show ?thesis by simp
  next
    case False
    with Cons show ?thesis by simp
  qed
qed

lemma merge_left_distinct:
  assumes "distinct (map kb ys)"
  shows "map fst (merge_left ka kb xs ys) = xs"
proof (induction xs)
  case Nil
  then show ?case by (simp add: merge_left_def)
next
  case (Cons x xs)
  have "length (filter (\<lambda>y. kb y = ka x) ys) \<le> 1"
    using assms by (rule filter_key_distinct)
  then have "map fst (case filter (\<lambda>y. kb y = ka x) ys of [] \<Rightarrow> [(x, None)]
                      | ms \<Rightarrow> map (\<lambda>y. (x, Some y)) ms) = [x]"
    by (cases "filter (\<lambda>y. kb y = ka x) ys") (auto simp: length_Suc_conv)
  with Cons show ?case
    by (simp add: merge_left_def)
qed

lemma on_hadm_id_onset_of_group [simp]: "on_hadm_id (onset_of_group crit h) = h"
  by (simp add: onset_of_group_def)

lemma bl_hadm_id_bilateral_of_group [simp]: "bl_hadm_id (bilateral_of_group detect cr h) = h"
  by (simp add: bilateral_of_group_def)

lemma distinct_onset_keys:
  "ards_onset_times sfr = Frame os \<Longrightarrow> distinct (map on_hadm_id os)"
  by (auto simp: ards_onset_times_def comp_def distinct_group_keys split: frame.splits if_splits)

lemma distinct_bilateral_keys: "distinct (map bl_hadm_id (bilateral_by_admission detect cr))"
  by (simp add: bilateral_by_admission_def comp_def distinct_group_keys)

lemma merge_onset_fst: "map fst (merge_onset base (ards_onset_times sfr)) = base"
proof (cases "ards_onset_times sfr")
  case DataFrame_empty
  then show ?thesis by (simp add: merge_onset_def comp_def)
next
  case (Frame os)
  then have "distinct (map on_hadm_id os)" by (rule distinct_onset_keys)
  then have "map fst (merge_left base_hadm_id on_hadm_id base os) = base"
    by (rule merge_left_distinct)
  with Frame show ?thesis by (simp add: merge_onset_def comp_def)
qed

lemma merge_bilateral_fst:
  "map fst (merge_bilateral fc (bilateral_by_admission detect cr)) = fc"
proof -
  have "map fst (merge_left (\<lambda>r. base_hadm_id (fst r)) bl_hadm_id fc (bilateral_by_admission detect cr)) = fc"
    using distinct_bilateral_keys by (rule merge_left_distinct)
  then show ?thesis by (simp add: merge_bilateral_def comp_def)
qed

lemma ards_final_cohort_base:
  "map ac_base (ards_final_cohort base (ards_onset_times sfr) (bilateral_by_admission detect cr)) = base"
proof -
  have "map ac_base (ards_final_cohort base (ards_onset_times sfr) (bilateral_by_admission detect cr)) =
        map fst (map fst (merge_bilateral (merge_onset base (ards_onset_times sfr))
                   (bilateral_by_admission detect cr)))"
    by (simp add: ards_final_cohort_def mk_ards_cohort_row_def comp_def case_prod_beta)
  then show ?thesis by (simp only: merge_bilateral_fst merge_onset_fst)
qed

text \<open>
  Claim C10. The ARDS-flagging stage neither drops nor duplicates rows: the flagged
  output holds the rows of the base cohort, each once and in the same order, with new
  columns added. Both aggregates, the onset times and the bilateral-infiltrates flags,
  come from a group-by on the admission identifier, so each has at most one row per
  admission, and both are attached by a left join.
\<close>

theorem ards_flagging_keeps_rows:
  "map ac_base (ards_identification detect base ce rad) = base \<and>
   length (ards_identification detect base ce rad) = length base \<and>
   map ac_base (ards_final_cohort base (ards_onset_times sfr) (bilateral_by_admission detect cr)) = base"
proof -
  have 1: "map ac_base (ards_identification detect base ce rad) = base"
    unfolding ards_identification_def by (rule ards_final_cohort_base)
  have "length (map ac_base (ards_identification detect base ce rad)) = length base"
    by (simp only: 1)
  then have 2: "length (ards_identification detect base ce rad) = length base" by simp
  from 1 2 ards_final_cohort_base show ?thesis by blast
qed

lemma agg_min_map:
  "xs \<noteq> [] \<Longrightarrow> agg_min (map f xs) = Some (Min (f ` set xs))"
  using agg_min_eq[of "map f xs"] by simp

lemma ards_onset_times_row:
  assumes "q \<in> set rs" "ar_sf_ratio q \<le> 315"
  shows "\<exists>os. ards_onset_times (Frame rs) = Frame os \<and>
           filter (\<lambda>w. on_hadm_id w = ar_hadm_id q) os =
             [onset_of_group (ards_sf_criteria rs) (ar_hadm_id q)]"
proof -
  let ?crit = "ards_sf_criteria rs"
  let ?ks = "group_keys ar_hadm_id ?crit"
  have qc: "q \<in> set ?crit" using assms by (simp add: ards_sf_criteria_def)
  then have ne: "rs \<noteq> []" "?crit \<noteq> []" using assms(1) by auto
  then have fr: "ards_onset_times (Frame rs) = Frame (map (onset_of_group ?crit) ?ks)"
    by (simp add: ards_onset_times_def)
  have hk: "ar_hadm_id q \<in> set ?ks" using qc by (simp add: set_group_keys)
  have "filter (\<lambda>w. on_hadm_id w = ar_hadm_id q) (map (onset_of_group ?crit) ?ks) =
        map (onset_of_group ?crit) (filter (\<lambda>k. k = ar_hadm_id q) ?ks)"
    by (simp add: filter_map comp_def)
  also have "\<dots> = [onset_of_group ?crit (ar_hadm_id q)]"
    by (simp add: filter_eq_distinct[OF distinct_group_keys hk])
  finally show ?thesis using fr by blast
qed

lemma onset_of_group_values:
  assumes "q \<in> set rs" "ar_sf_ratio q \<le> 315"
  shows "ards_onset_time (onset_of_group (ards_sf_criteria rs) (ar_hadm_id q)) =
           Some (Min (ar_charttime ` {r \<in> set rs. ar_hadm_id r = ar_hadm_id q \<and> ar_sf_ratio r \<le> 315}))"
    and "ards_onset_sf_ratio (onset_of_group (ards_sf_criteria rs) (ar_hadm_id q)) =
           Some (Min (ar_sf_ratio ` {r \<in> set rs. ar_hadm_id r = ar_hadm_id q \<and> ar_sf_ratio r \<le> 315}))"
proof -
  let ?g = "filter (\<lambda>r. ar_hadm_id r = ar_hadm_id q) (ards_sf_criteria rs)"
  have s: "set ?g = {r \<in> set rs. ar_hadm_id r = ar_hadm_id q \<and> ar_sf_ratio r \<le> 315}"
    by (auto simp: ards_sf_criteria_def)
  have "q \<in> set ?g" using assms by (simp add: ards_sf_criteria_def)
  then have ne: "?g \<noteq> []" by (metis empty_iff empty_set)
  show "ards_onset_time (onset_of_group (ards_sf_criteria rs) (ar_hadm_id q)) =
           Some (Min (ar_charttime ` {r \<in> set rs. ar_hadm_id r = ar_hadm_id q \<and> ar_sf_ratio r \<le> 315}))"
    unfolding s[symmetric] using agg_min_map[OF ne, of ar_charttime]
    by (simp add: onset_of_group_def del: set_filter)
  show "ards_onset_sf_ratio (onset_of_group (ards_sf_criteria rs) (ar_hadm_id q)) =
           Some (Min (ar_sf_ratio ` {r \<in> set rs. ar_hadm_id r = ar_hadm_id q \<and> ar_sf_ratio r \<le> 315}))"
    unfolding s[symmetric] using agg_min_map[OF ne, of ar_sf_ratio]
    by (simp add: onset_of_group_def del: set_filter)
qed

lemma set_pivot_keys:
  "sp_key ` set (pivot_table key rows) = {k. \<exists>x \<in> set rows. key x = Some k}"
  by (simp add: pivot_table_def set_group_keys set_map_filter image_image)

lemma sf_ratios_of_key:
  "sr \<in> set (sf_ratios_of pv) \<Longrightarrow> sr_key sr \<in> sp_key ` set pv"
  by (auto simp: set_sf_ratios_of)

lemma convert_fio2_key [simp]:
  "stay_hadm_charttime_key (convert_fio2 x) = stay_hadm_charttime_key x"
  by (simp add: convert_fio2_def stay_hadm_charttime_key_def)

lemma minutes_window:
  "(0 \<le> total_seconds d / 60 \<and> total_seconds d / 60 \<le> 60) = (0 \<le> d \<and> d \<le> 3600000000000)"
proof -
  have a: "(0 \<le> total_seconds d / 60) = (0 \<le> d)"
    by (simp add: total_seconds_def zero_le_divide_iff)
  have "(total_seconds d / 60 \<le> 60) = ((of_int d :: rat) \<le> of_int 3600000000000)"
    by (simp add: total_seconds_def field_simps)
  then have b: "(total_seconds d / 60 \<le> 60) = (d \<le> 3600000000000)"
    by (simp only: of_int_le_iff)
  show ?thesis by (simp only: a b)
qed

lemma sf_data_60min_window:
  assumes "x \<in> set (sf_data_60min base ce)"
  shows "\<exists>b \<in> set base. base_stay_id b = v_stay_id x \<and> v_hadm_id x = Some (base_hadm_id b) \<and>
           0 \<le> v_charttime x - base_intime b \<and> v_charttime x - base_intime b \<le> 3600000000000"
proof -
  from assms have x: "x \<in> set (sf_data base ce)"
     and m: "case minutes_from_icu x of None \<Rightarrow> False | Some m \<Rightarrow> m \<ge> 0 \<and> m \<le> 60"
    by (simp_all add: sf_data_60min_def)
  from x obtain e v mb where ox: "x = mk_sf_row e v mb"
      "((e, v), mb) \<in> set (merge_left (\<lambda>(e, v). ce_stay_id e) base_stay_id (sf_events base ce) base)"
    by (auto simp: sf_data_def)
  from m ox(1) obtain b where b: "mb = Some b"
    by (cases mb) (simp_all add: minutes_from_icu_def mk_sf_row_def)
  from ox(2) b have bb: "b \<in> set base" "base_stay_id b = ce_stay_id e"
    unfolding set_merge_left by auto
  from m ox(1) b have "0 \<le> total_seconds (ce_charttime e - base_intime b) / 60 \<and>
      total_seconds (ce_charttime e - base_intime b) / 60 \<le> 60"
    by (simp add: minutes_from_icu_def mk_sf_row_def)
  then have "0 \<le> ce_charttime e - base_intime b \<and> ce_charttime e - base_intime b \<le> 3600000000000"
    by (simp only: minutes_window)
  with bb ox(1) b show ?thesis
    by (intro bexI[of _ b]) (simp_all add: mk_sf_row_def)
qed

lemma ards_sf_ratios_window:
  assumes "ards_sf_ratios base ce = Frame rs" "q \<in> set rs"
  shows "\<exists>b \<in> set base. base_stay_id b = ar_stay_id q \<and> base_hadm_id b = ar_hadm_id q \<and>
           0 \<le> ar_charttime q - base_intime b \<and> ar_charttime q - base_intime b \<le> 3600000000000"
proof -
  let ?pv = "pivot_table stay_hadm_charttime_key (map convert_fio2 (sf_data_60min base ce))"
  from assms have "q \<in> set (map (\<lambda>(r, m). mk_ards_sf_row r m)
                    (merge_left (\<lambda>r. fst (sr_key r)) base_stay_id (sf_ratios_of ?pv) base))"
    by (auto simp: ards_sf_ratios_def split: if_splits)
  then obtain sr m where q: "q = mk_ards_sf_row sr m"
      "(sr, m) \<in> set (merge_left (\<lambda>r. fst (sr_key r)) base_stay_id (sf_ratios_of ?pv) base)"
    by auto
  from q(2) have "sr \<in> set (sf_ratios_of ?pv)"
    unfolding set_merge_left by auto
  then have "sr_key sr \<in> sp_key ` set ?pv" by (rule sf_ratios_of_key)
  then obtain x where x: "x \<in> set (sf_data_60min base ce)"
      "stay_hadm_charttime_key x = Some (sr_key sr)"
    unfolding set_pivot_keys by auto
  from sf_data_60min_window[OF x(1)] obtain b where b: "b \<in> set base" "base_stay_id b = v_stay_id x"
      "v_hadm_id x = Some (base_hadm_id b)"
      "0 \<le> v_charttime x - base_intime b" "v_charttime x - base_intime b \<le> 3600000000000"
    by blast
  from x(2) b(3) have k: "sr_key sr = (v_stay_id x, base_hadm_id b, v_charttime x)"
    by (simp add: stay_hadm_charttime_key_def)
  from b k q(1) show ?thesis
    by (intro bexI[of _ b]) (simp_all add: mk_ards_sf_row_def)
qed

text \<open>
  Claim C1, amended. In the optimized-onset variant, every admission with at least one
  S/F ratio observation of at most 315 within 0 to 60 minutes of ICU admission has
  exactly one onset record. The record carries the earliest timestamp among the
  admission's qualifying observations and the lowest ratio among them; the two are
  aggregated separately and need not come from the same observation. Every observation
  of the ratio frame lies within 0 to 60 minutes of the ICU admission of its stay.
\<close>

theorem ards_onset_earliest_time_lowest_ratio:
  assumes "ards_sf_ratios base ce = Frame rs" "q \<in> set rs" "ar_sf_ratio q \<le> 315"
  shows "(\<exists>os. ards_onset_times (ards_sf_ratios base ce) = Frame os \<and>
            filter (\<lambda>w. on_hadm_id w = ar_hadm_id q) os =
              [onset_of_group (ards_sf_criteria rs) (ar_hadm_id q)]) \<and>
         ards_onset_time (onset_of_group (ards_sf_criteria rs) (ar_hadm_id q)) =
           Some (Min (ar_charttime ` {r \<in> set rs. ar_hadm_id r = ar_hadm_id q \<and> ar_sf_ratio r \<le> 315})) \<and>
         ards_onset_sf_ratio (onset_of_group (ards_sf_criteria rs) (ar_hadm_id q)) =
           Some (Min (ar_sf_ratio ` {r \<in> set rs. ar_hadm_id r = ar_hadm_id q \<and> ar_sf_ratio r \<le> 315})) \<and>
         (\<exists>b \<in> set base. base_stay_id b = ar_stay_id q \<and> base_hadm_id b = ar_hadm_id q \<and>
            0 \<le> ar_charttime q - base_intime b \<and> ar_charttime q - base_intime b \<le> 3600000000000)"
  using ards_onset_times_row[OF assms(2,3)] onset_of_group_values[OF assms(2,3)]
    ards_sf_ratios_window[OF assms(1,2)]
  unfolding assms(1) by blast

lemma ex_base_row_simps:
  "base_stay_id (ex_base_row st) = icu_stay_id st"
  "base_hadm_id (ex_base_row st) = 10"
  "base_intime (ex_base_row st) = intime st"
  "admission_dttm (ex_base_row st) = 0"
  by (simp_all add: base_stay_id_def base_hadm_id_def base_intime_def ex_base_row_def
      final_cohort_of_def row_stay_id_def row_hadm_id_def ex_row_def ex_adm_def)

lemma ex2_sf_events:
  "sf_events ex_base ex_sf_chartevents =
     [(ex_event 100 220277 600000000000 90, 90),
      (ex_event 100 220210 600000000000 30, 30),
      (ex_event 100 220277 1200000000000 90, 90),
      (ex_event 100 220210 1200000000000 45, 45),
      (ex_event 100 220277 7200000000000 80, 80),
      (ex_event 100 220210 7200000000000 100, 100)]"
  by (simp add: sf_events_def ex_base_def ex_sf_chartevents_def ex_base_row_simps ex_stay_def
      ex_event_def SF_ITEMIDS_def SPO2_ITEMIDS_def FIO2_ITEMIDS_def)

lemma ex2_sf_data:
  "sf_data ex_base ex_sf_chartevents =
     [ex_vent 10 100 220277 600000000000 90 Spo2,
      ex_vent 10 100 220210 600000000000 30 Fio2,
      ex_vent 10 100 220277 1200000000000 90 Spo2,
      ex_vent 10 100 220210 1200000000000 45 Fio2,
      ex_vent 10 100 220277 7200000000000 80 Spo2,
      ex_vent 10 100 220210 7200000000000 100 Fio2]"
  unfolding sf_data_def ex2_sf_events
  by (simp add: merge_left_def ex_base_def ex_base_row_simps ex_stay_def ex_event_def mk_sf_row_def
      classify_sf_def ex_vent_def SPO2_ITEMIDS_def FIO2_ITEMIDS_def)

lemma ex2_sf_data_60min:
  "sf_data_60min ex_base ex_sf_chartevents =
     [ex_vent 10 100 220277 600000000000 90 Spo2,
      ex_vent 10 100 220210 600000000000 30 Fio2,
      ex_vent 10 100 220277 1200000000000 90 Spo2,
      ex_vent 10 100 220210 1200000000000 45 Fio2]"
  unfolding sf_data_60min_def ex2_sf_data
  by (simp add: minutes_from_icu_def total_seconds_def ex_vent_def)

lemma ex2_pivot:
  "pivot_table stay_hadm_charttime_key (map convert_fio2 (sf_data_60min ex_base ex_sf_chartevents)) =
     [\<lparr>sp_key = (100, 10, 600000000000), sp_spo2 = Some 90, sp_fio2 = Some (3/10)\<rparr>,
      \<lparr>sp_key = (100, 10, 1200000000000), sp_spo2 = Some 90, sp_fio2 = Some (9/20)\<rparr>]"
  unfolding ex2_sf_data_60min
  by (simp add: pivot_table_def pivot_first_def group_keys_def List.map_filter_def
      stay_hadm_charttime_key_def convert_fio2_def fio2_mask_def ex_vent_def)

lemma ex2_ards_sf_ratios:
  "ards_sf_ratios ex_base ex_sf_chartevents =
     Frame [ex_ards_sf 600000000000 (3/10) 300 10, ex_ards_sf 1200000000000 (9/20) 200 20]"
  unfolding ards_sf_ratios_def spo2_data_def fio2_data_def ex2_pivot
  unfolding ex2_sf_data_60min
  by (simp add: sf_ratios_of_def merge_left_def
      ex_base_def ex_base_row_simps ex_stay_def mk_ards_sf_row_def ex_ards_sf_def ex_vent_def
      total_seconds_def)

lemma ex2_ards_onset_times:
  "ards_onset_times (ards_sf_ratios ex_base ex_sf_chartevents) =
     Frame [\<lparr>on_hadm_id = 10, ards_onset_time = Some 600000000000, ards_onset_sf_ratio = Some 200,
             ards_onset_minutes_from_icu = Some 10\<rparr>]"
  unfolding ex2_ards_sf_ratios
  by (simp add: ards_onset_times_def ards_sf_criteria_def group_keys_def onset_of_group_def
      List.map_filter_def ex_ards_sf_def)

text \<open>
  The onset ratio is not that of the earliest qualifying observation: stay 100 has
  ratio 300 at 10 minutes and ratio 200 at 20 minutes, both qualifying; the onset record
  holds the time of the first and the ratio of the second.
\<close>

theorem ards_onset_ratio_counterexample:
  "ards_sf_ratios ex_base ex_sf_chartevents =
     Frame [ex_ards_sf 600000000000 (3/10) 300 10, ex_ards_sf 1200000000000 (9/20) 200 20] \<and>
   ards_onset_times (ards_sf_ratios ex_base ex_sf_chartevents) =
     Frame [\<lparr>on_hadm_id = 10, ards_onset_time = Some 600000000000, ards_onset_sf_ratio = Some 200,
             ards_onset_minutes_from_icu = Some 10\<rparr>] \<and>
   ar_charttime (ex_ards_sf 600000000000 (3/10) 300 10) = 600000000000 \<and>
   ar_sf_ratio (ex_ards_sf 600000000000 (3/10) 300 10) = 300 \<and>
   ar_sf_ratio (ex_ards_sf 600000000000 (3/10) 300 10) \<noteq> 200"
  by (simp add: ex2_ards_sf_ratios[symmetric] ex2_ards_onset_times) (simp add: ex2_ards_sf_ratios ex_ards_sf_def)

text \<open>The same inputs: one onset record for admission 10, time 10 minutes, ratio 200.\<close>

theorem ards_onset_earliest_time_lowest_ratio_witness:
  "\<exists>os. ards_onset_times (ards_sf_ratios ex_base ex_sf_chartevents) = Frame os \<and>
      map (\<lambda>w. (on_hadm_id w, ards_onset_time w, ards_onset_sf_ratio w))
        (filter (\<lambda>w. on_hadm_id w = 10) os) = [(10, Some 600000000000, Some 200)]"
proof -
  let ?q = "ex_ards_sf 600000000000 (3/10) 300 10"
  let ?rs = "[ex_ards_sf 600000000000 (3/10) 300 10, ex_ards_sf 1200000000000 (9/20) 200 20]"
  have q: "?q \<in> set ?rs" by simp
  have le: "ar_sf_ratio ?q \<le> 315" by (simp add: ex_ards_sf_def)
  have h: "ar_hadm_id ?q = 10" by (simp add: ex_ards_sf_def)
  from ards_onset_earliest_time_lowest_ratio[OF ex2_ards_sf_ratios q le, THEN conjunct1]
  obtain os where os: "ards_onset_times (ards_sf_ratios ex_base ex_sf_chartevents) = Frame os"
     "filter (\<lambda>w. on_hadm_id w = 10) os = [onset_of_group (ards_sf_criteria ?rs) 10]"
    unfolding h by blast
  have "map (\<lambda>w. (on_hadm_id w, ards_onset_time w, ards_onset_sf_ratio w))
        (filter (\<lambda>w. on_hadm_id w = 10) os) = [(10, Some 600000000000, Some 200)]"
    unfolding os(2) by (simp add: onset_of_group_def ards_sf_criteria_def ex_ards_sf_def)
  with os(1) show ?thesis by (intro exI[of _ os] conjI)
qed

lemma bilateral_by_admission_row:
  assumes "\<exists>n \<in> set cr. rad_hadm_id n = Some h"
  shows "filter (\<lambda>b. bl_hadm_id b = h) (bilateral_by_admission detect cr) =
           [bilateral_of_group detect cr h]"
proof -
  let ?ks = "group_keys id (List.map_filter rad_hadm_id cr)"
  have hk: "h \<in> set ?ks" using assms by (auto simp: set_group_keys set_map_filter)
  have "filter (\<lambda>b. bl_hadm_id b = h) (map (bilateral_of_group detect cr) ?ks) =
        map (bilateral_of_group detect cr) (filter (\<lambda>k. k = h) ?ks)"
    by (simp add: filter_map comp_def)
  also have "\<dots> = [bilateral_of_group detect cr h]"
    by (simp add: filter_eq_distinct[OF distinct_group_keys hk])
  finally show ?thesis by (simp add: bilateral_by_admission_def)
qed

lemma bilateral_of_group_values:
  assumes "\<exists>n \<in> set cr. rad_hadm_id n = Some h"
  shows "has_bilateral_infiltrates (bilateral_of_group detect cr h) =
           (\<exists>n \<in> set cr. rad_hadm_id n = Some h \<and> detect (rad_text n))"
    and "first_radiology_time (bilateral_of_group detect cr h) =
           Some (Min (rad_charttime ` {n \<in> set cr. rad_hadm_id n = Some h}))"
proof -
  let ?g = "filter (\<lambda>n. rad_hadm_id n = Some h) cr"
  have s: "set ?g = {n \<in> set cr. rad_hadm_id n = Some h}" by auto
  from assms have "set ?g \<noteq> {}" by auto
  then have ne: "?g \<noteq> []" by (metis empty_set)
  show "has_bilateral_infiltrates (bilateral_of_group detect cr h) =
           (\<exists>n \<in> set cr. rad_hadm_id n = Some h \<and> detect (rad_text n))"
    by (auto simp: bilateral_of_group_def)
  show "first_radiology_time (bilateral_of_group detect cr h) =
           Some (Min (rad_charttime ` {n \<in> set cr. rad_hadm_id n = Some h}))"
    unfolding s[symmetric] using agg_min_map[OF ne, of rad_charttime]
    by (simp add: bilateral_of_group_def del: set_filter)
qed

lemma bilateral_infiltrates_df_row:
  assumes "\<exists>n \<in> set cr. rad_hadm_id n = Some h \<and> detect (rad_text n)"
  shows "filter (\<lambda>b. bd_hadm_id b = h) (bilateral_infiltrates_df detect cr) =
           [bilateral_df_of_group (filter (\<lambda>n. detect (rad_text n)) cr) h]"
    and "bilateral_infiltrates_time (bilateral_df_of_group (filter (\<lambda>n. detect (rad_text n)) cr) h) =
           Some (Min (rad_charttime ` {n \<in> set cr. rad_hadm_id n = Some h \<and> detect (rad_text n)}))"
proof -
  let ?pos = "filter (\<lambda>n. detect (rad_text n)) cr"
  let ?ks = "group_keys id (List.map_filter rad_hadm_id ?pos)"
  let ?g = "filter (\<lambda>n. rad_hadm_id n = Some h) ?pos"
  have hk: "h \<in> set ?ks" using assms by (auto simp: set_group_keys set_map_filter)
  have "filter (\<lambda>b. bd_hadm_id b = h) (map (bilateral_df_of_group ?pos) ?ks) =
        map (bilateral_df_of_group ?pos) (filter (\<lambda>k. k = h) ?ks)"
    by (simp add: filter_map comp_def bilateral_df_of_group_def)
  also have "\<dots> = [bilateral_df_of_group ?pos h]"
    by (simp add: filter_eq_distinct[OF distinct_group_keys hk])
  finally show "filter (\<lambda>b. bd_hadm_id b = h) (bilateral_infiltrates_df detect cr) =
           [bilateral_df_of_group ?pos h]"
    by (simp add: bilateral_infiltrates_df_def)
  have s: "set ?g = {n \<in> set cr. rad_hadm_id n = Some h \<and> detect (rad_text n)}" by auto
  from assms have "set ?g \<noteq> {}" by auto
  then have ne: "?g \<noteq> []" by (metis empty_set)
  show "bilateral_infiltrates_time (bilateral_df_of_group ?pos h) =
           Some (Min (rad_charttime ` {n \<in> set cr. rad_hadm_id n = Some h \<and> detect (rad_text n)}))"
    unfolding s[symmetric] using agg_min_map[OF ne, of rad_charttime]
    by (simp add: bilateral_df_of_group_def del: set_filter)
qed

lemma bilateral_infiltrates_df_no_row:
  assumes "\<not> (\<exists>n \<in> set cr. rad_hadm_id n = Some h \<and> detect (rad_text n))"
  shows "filter (\<lambda>b. bd_hadm_id b = h) (bilateral_infiltrates_df detect cr) = []"
proof -
  have "h \<notin> set (group_keys id (List.map_filter rad_hadm_id (filter (\<lambda>n. detect (rad_text n)) cr)))"
    using assms by (auto simp: set_group_keys set_map_filter)
  then show ?thesis
    by (auto simp: bilateral_infiltrates_df_def filter_empty_conv bilateral_df_of_group_def)
qed

lemma final_flag:
  assumes "r \<in> set (ards_final_cohort base ot (bilateral_by_admission detect cr))"
  shows "ac_has_bilateral_infiltrates r =
           (\<exists>n \<in> set cr. rad_hadm_id n = Some (base_hadm_id (ac_base r)) \<and> detect (rad_text n))"
proof -
  let ?bl = "bilateral_by_admission detect cr"
  from assms obtain b on bo where r: "r = mk_ards_cohort_row b on bo"
      "((b, on), bo) \<in> set (merge_bilateral (merge_onset base ot) ?bl)"
    by (auto simp: ards_final_cohort_def)
  have keys: "bl_hadm_id ` set ?bl = {h. \<exists>n \<in> set cr. rad_hadm_id n = Some h}"
    by (auto simp: bilateral_by_admission_def set_group_keys set_map_filter image_image)
  have rows: "y \<in> set ?bl \<Longrightarrow> y = bilateral_of_group detect cr (bl_hadm_id y)" for y
    by (auto simp: bilateral_by_admission_def)
  let ?h = "base_hadm_id b"
  consider (some) y where "bo = Some y" "y \<in> set ?bl" "bl_hadm_id y = ?h"
    | (none) "bo = None" "\<forall>y \<in> set ?bl. bl_hadm_id y \<noteq> ?h"
  proof (cases "?bl = []")
    case True
    with r(2) have "bo = None" by (auto simp: merge_bilateral_def)
    with True that(2) show ?thesis by simp
  next
    case False
    with r(2) have "((b, on), bo) \<in> set (merge_left (\<lambda>r. base_hadm_id (fst r)) bl_hadm_id
        (merge_onset base ot) ?bl)"
      by (simp add: merge_bilateral_def)
    then show ?thesis
      unfolding set_merge_left using that by auto
  qed
  then show ?thesis
  proof cases
    case some
    from some(2,3) have "?h \<in> bl_hadm_id ` set ?bl" by (metis image_eqI)
    then have ex: "\<exists>n \<in> set cr. rad_hadm_id n = Some ?h" unfolding keys by simp
    from rows[OF some(2)] some(3) have "y = bilateral_of_group detect cr ?h" by simp
    with some(1) r(1) bilateral_of_group_values(1)[OF ex, of detect] show ?thesis
      by (simp add: mk_ards_cohort_row_def)
  next
    case none
    then have "?h \<notin> bl_hadm_id ` set ?bl" by auto
    then have "\<not> (\<exists>n \<in> set cr. rad_hadm_id n = Some ?h)" unfolding keys by simp
    with none(1) r(1) show ?thesis
      by (auto simp: mk_ards_cohort_row_def)
  qed
qed

text \<open>
  Claim C2, amended. For every row of the flagged cohort, the bilateral-infiltrates flag
  is true exactly when at least one radiology report of the admission classifies true.
  In the optimized notebook the timestamp kept beside the flag is the minimum chart time
  over all reports of the admission (the first radiology time). In the Berlin-criteria
  notebook an admission has a row exactly when it has a positively classified report,
  and the timestamp kept is the minimum chart time over its positively classified
  reports.
\<close>

theorem bilateral_flag_and_time:
  "(\<forall>r \<in> set (ards_final_cohort base ot (bilateral_by_admission detect cr)).
      ac_has_bilateral_infiltrates r =
        (\<exists>n \<in> set cr. rad_hadm_id n = Some (base_hadm_id (ac_base r)) \<and> detect (rad_text n))) \<and>
   ((\<exists>n \<in> set cr. rad_hadm_id n = Some h) \<longrightarrow>
      filter (\<lambda>b. bl_hadm_id b = h) (bilateral_by_admission detect cr) =
        [bilateral_of_group detect cr h] \<and>
      has_bilateral_infiltrates (bilateral_of_group detect cr h) =
        (\<exists>n \<in> set cr. rad_hadm_id n = Some h \<and> detect (rad_text n)) \<and>
      first_radiology_time (bilateral_of_group detect cr h) =
        Some (Min (rad_charttime ` {n \<in> set cr. rad_hadm_id n = Some h}))) \<and>
   ((\<exists>n \<in> set cr. rad_hadm_id n = Some h \<and> detect (rad_text n)) \<longrightarrow>
      filter (\<lambda>b. bd_hadm_id b = h) (bilateral_infiltrates_df detect cr) =
        [bilateral_df_of_group (filter (\<lambda>n. detect (rad_text n)) cr) h] \<and>
      bilateral_infiltrates_time (bilateral_df_of_group (filter (\<lambda>n. detect (rad_text n)) cr) h) =
        Some (Min (rad_charttime ` {n \<in> set cr. rad_hadm_id n = Some h \<and> detect (rad_text n)}))) \<and>
   (\<not> (\<exists>n \<in> set cr. rad_hadm_id n = Some h \<and> detect (rad_text n)) \<longrightarrow>
      filter (\<lambda>b. bd_hadm_id b = h) (bilateral_infiltrates_df detect cr) = [])"
  using final_flag[of _ base ot detect cr] bilateral_by_admission_row[of cr h detect]
    bilateral_of_group_values[of cr h detect] bilateral_infiltrates_df_row[of cr h detect]
    bilateral_infiltrates_df_no_row[of cr h detect]
  by blast

lemma ex2_cohort_radiology: "cohort_radiology ex_base ex_reports = ex_reports"
  by (simp add: cohort_radiology_def ex_base_def ex_reports_def ex_base_row_simps)

lemma ex2_bilateral_by_admission:
  "bilateral_by_admission ex_detect ex_reports =
     [\<lparr>bl_hadm_id = 10, has_bilateral_infiltrates = True, first_radiology_time = Some 1000\<rparr>]"
  by (simp add: bilateral_by_admission_def bilateral_of_group_def group_keys_def List.map_filter_def
      ex_reports_def ex_detect_def)

lemma ex2_bilateral_infiltrates_df:
  "bilateral_infiltrates_df ex_detect ex_reports =
     [\<lparr>bd_hadm_id = 10, bilateral_infiltrates_time = Some 5000, bd_note_id = Some ''n2''\<rparr>]"
  by (simp add: bilateral_infiltrates_df_def bilateral_df_of_group_def group_keys_def List.map_filter_def
      ex_reports_def ex_detect_def)

text \<open>
  In the optimized notebook the retained timestamp is not that of the earliest positive
  report: admission 10 has a negative report at time 1000 and a positive one at time
  5000; its flag is true and the time kept is 1000.
\<close>

theorem first_radiology_time_counterexample:
  "bilateral_by_admission ex_detect (cohort_radiology ex_base ex_reports) =
     [\<lparr>bl_hadm_id = 10, has_bilateral_infiltrates = True, first_radiology_time = Some 1000\<rparr>] \<and>
   filter (\<lambda>n. ex_detect (rad_text n)) (cohort_radiology ex_base ex_reports) =
     [\<lparr>rad_note_id = ''n2'', rad_hadm_id = Some 10, rad_charttime = 5000,
       rad_text = Some ''bilateral opacities''\<rparr>] \<and>
   (1000::int) \<noteq> 5000"
  unfolding ex2_cohort_radiology ex2_bilateral_by_admission
  by (simp add: ex_reports_def ex_detect_def)

text \<open>
  The same reports: both rows of admission 10 are flagged; the optimized notebook keeps
  time 1000, the Berlin-criteria notebook keeps time 5000, and an admission without a
  positive report has no row there.
\<close>

theorem bilateral_flag_and_time_witness:
  "map (\<lambda>r. (base_stay_id (ac_base r), ac_has_bilateral_infiltrates r, ac_first_radiology_time r))
     (ards_identification ex_detect ex_base ex_sf_chartevents ex_reports) =
     [(100, True, Some 1000), (104, True, Some 1000)] \<and>
   filter (\<lambda>b. bl_hadm_id b = 10) (bilateral_by_admission ex_detect ex_reports) =
     [\<lparr>bl_hadm_id = 10, has_bilateral_infiltrates = True, first_radiology_time = Some 1000\<rparr>] \<and>
   filter (\<lambda>b. bd_hadm_id b = 10) (bilateral_infiltrates_df ex_detect ex_reports) =
     [\<lparr>bd_hadm_id = 10, bilateral_infiltrates_time = Some 5000, bd_note_id = Some ''n2''\<rparr>] \<and>
   filter (\<lambda>b. bd_hadm_id b = 11) (bilateral_infiltrates_df ex_detect ex_reports) = []"
proof -
  have e1: "\<exists>n \<in> set ex_reports. rad_hadm_id n = Some 10"
    by (simp add: ex_reports_def)
  have e2: "\<exists>n \<in> set ex_reports. rad_hadm_id n = Some 10 \<and> ex_detect (rad_text n)"
    by (simp add: ex_reports_def ex_detect_def)
  have e3: "\<not> (\<exists>n \<in> set ex_reports. rad_hadm_id n = Some 11 \<and> ex_detect (rad_text n))"
    by (simp add: ex_reports_def ex_detect_def)
  note w = bilateral_flag_and_time[of ex_base "ards_onset_times (ards_sf_ratios ex_base ex_sf_chartevents)"
      ex_detect ex_reports]
  have 2: "filter (\<lambda>b. bl_hadm_id b = 10) (bilateral_by_admission ex_detect ex_reports) =
     [\<lparr>bl_hadm_id = 10, has_bilateral_infiltrates = True, first_radiology_time = Some 1000\<rparr>]"
    using w[of 10, THEN conjunct2, THEN conjunct1, rule_format, OF e1, THEN conjunct1]
    by (simp add: bilateral_of_group_def ex_reports_def ex_detect_def)
  have 3: "filter (\<lambda>b. bd_hadm_id b = 10) (bilateral_infiltrates_df ex_detect ex_reports) =
     [\<lparr>bd_hadm_id = 10, bilateral_infiltrates_time = Some 5000, bd_note_id = Some ''n2''\<rparr>]"
    using w[of 10, THEN conjunct2, THEN conjunct2, THEN conjunct1, rule_format, OF e2, THEN conjunct1]
    by (simp add: bilateral_df_of_group_def ex_reports_def ex_detect_def)
  have 4: "filter (\<lambda>b. bd_hadm_id b = 11) (bilateral_infiltrates_df ex_detect ex_reports) = []"
    using w[of 11, THEN conjunct2, THEN conjunct2, THEN conjunct2, rule_format, OF e3] .
  have 1: "map (\<lambda>r. (base_stay_id (ac_base r), ac_has_bilateral_infiltrates r, ac_first_radiology_time r))
     (ards_identification ex_detect ex_base ex_sf_chartevents ex_reports) =
     [(100, True, Some 1000), (104, True, Some 1000)]"
    unfolding ards_identification_def ex2_cohort_radiology ex2_bilateral_by_admission ex2_ards_onset_times
    by (simp add: ards_final_cohort_def merge_bilateral_def merge_onset_def merge_left_def
        mk_ards_cohort_row_def ex_base_def ex_base_row_simps ex_stay_def)
  from 1 2 3 4 show ?thesis by (intro conjI)
qed

text \<open>
  The base cohort of the example has two rows of admission 10, one per stay; the flagged
  output has the same two rows, each with the onset and the flags of the admission.
  Without any chart event the ratio frame is empty, the cell's final \<open>del\<close> raises
  \<open>NameError\<close>, and the flagging cell still returns every row of the base cohort.
\<close>

theorem ards_flagging_keeps_rows_witness:
  "map ac_base (ards_identification ex_detect ex_base ex_sf_chartevents ex_reports) = ex_base \<and>
   map (\<lambda>r. (base_stay_id (ac_base r), ac_ards_onset_time r, ac_ards_onset_sf_ratio r, has_ards r))
     (ards_identification ex_detect ex_base ex_sf_chartevents ex_reports) =
     [(100, Some 600000000000, Some 200, True), (104, Some 600000000000, Some 200, True)] \<and>
   clear_sf_ratios (ards_sf_ratios ex_base []) = Inl NameError \<and>
   map ac_base (ards_identification ex_detect ex_base [] ex_reports) = ex_base"
proof -
  have 1: "map (\<lambda>r. (base_stay_id (ac_base r), ac_ards_onset_time r, ac_ards_onset_sf_ratio r, has_ards r))
     (ards_identification ex_detect ex_base ex_sf_chartevents ex_reports) =
     [(100, Some 600000000000, Some 200, True), (104, Some 600000000000, Some 200, True)]"
    unfolding ards_identification_def ex2_cohort_radiology ex2_bilateral_by_admission ex2_ards_onset_times
    by (simp add: ards_final_cohort_def merge_bilateral_def merge_onset_def merge_left_def
        mk_ards_cohort_row_def ex_base_def ex_base_row_simps ex_stay_def has_ards_def has_ards_onset_def)
  have 2: "clear_sf_ratios (ards_sf_ratios ex_base []) = Inl NameError"
    by (simp add: clear_sf_ratios_def ards_sf_ratios_def spo2_data_def fio2_data_def sf_data_60min_def
        sf_data_def sf_events_def merge_left_def)
  from ards_flagging_keeps_rows[of ex_detect ex_base ex_sf_chartevents ex_reports, THEN conjunct1]
    ards_flagging_keeps_rows[of ex_detect ex_base "[]" ex_reports, THEN conjunct1] 1 2
  show ?thesis by (intro conjI)
qed

lemma hours_window:
  "(total_seconds d / 3600 \<le> 168) = (d \<le> 604800000000000)"
  "(0 \<le> total_seconds d / 3600) = (0 \<le> d)"
proof -
  have "(total_seconds d / 3600 \<le> 168) = ((of_int d :: rat) \<le> of_int 604800000000000)"
    by (simp add: total_seconds_def field_simps)
  then show "(total_seconds d / 3600 \<le> 168) = (d \<le> 604800000000000)"
    by (simp only: of_int_le_iff)
  show "(0 \<le> total_seconds d / 3600) = (0 \<le> d)"
    by (simp add: total_seconds_def zero_le_divide_iff)
qed

lemma berlin_mask_iff:
  "berlin_mask r \<longleftrightarrow>
     (\<exists>bt p pf. bilateral_infiltrates_time (snd (fst r)) = Some bt \<and>
        vp_peep (fst (fst r)) = Some p \<and> p \<ge> 5 \<and>
        vp_pf_ratio (fst (fst r)) = Some pf \<and> pf \<le> 300 \<and>
        bt \<le> vp_charttime (fst (fst r)) \<and>
        admission_dttm (snd r) \<le> vp_charttime (fst (fst r)) \<and>
        vp_charttime (fst (fst r)) - admission_dttm (snd r) \<le> 604800000000000 \<and>
        bt - admission_dttm (snd r) \<le> 604800000000000)"
proof -
  have a: "le_opt (Some (total_seconds d / 3600)) 168 = (d \<le> 604800000000000)" for d
    unfolding le_opt_def option.case by (rule hours_window(1))
  have b: "ge_opt (Some (total_seconds d / 3600)) 0 = (0 \<le> d)" for d
    unfolding ge_opt_def option.case by (rule hours_window(2))
  show ?thesis
  proof (cases "bilateral_infiltrates_time (snd (fst r))")
    case None
    then show ?thesis
      by (simp add: berlin_mask_def bilateral_from_admission_def hours_between_def le_opt_def)
  next
    case (Some bt)
    have 1: "bilateral_from_admission r = Some (total_seconds (bt - admission_dttm (snd r)) / 3600)"
      using Some by (simp add: bilateral_from_admission_def hours_between_def)
    have 2: "hours_from_bilateral r = Some (total_seconds (vp_charttime (fst (fst r)) - bt) / 3600)"
      using Some by (simp add: hours_from_bilateral_def hours_between_def)
    have 3: "hours_from_admission r =
        Some (total_seconds (vp_charttime (fst (fst r)) - admission_dttm (snd r)) / 3600)"
      by (simp add: hours_from_admission_def hours_between_def)
    have "berlin_mask r \<longleftrightarrow>
        (bt - admission_dttm (snd r) \<le> 604800000000000 \<and>
         0 \<le> vp_charttime (fst (fst r)) - bt \<and>
         0 \<le> vp_charttime (fst (fst r)) - admission_dttm (snd r) \<and>
         vp_charttime (fst (fst r)) - admission_dttm (snd r) \<le> 604800000000000 \<and>
         ge_opt (vp_peep (fst (fst r))) 5 \<and> vp_pf_ratio (fst (fst r)) \<noteq> None \<and>
         le_opt (vp_pf_ratio (fst (fst r))) 300)"
      unfolding berlin_mask_def 1 2 3 a b by (rule refl)
    also have "\<dots> \<longleftrightarrow>
        (\<exists>p pf. vp_peep (fst (fst r)) = Some p \<and> p \<ge> 5 \<and>
        vp_pf_ratio (fst (fst r)) = Some pf \<and> pf \<le> 300 \<and>
        bt \<le> vp_charttime (fst (fst r)) \<and>
        admission_dttm (snd r) \<le> vp_charttime (fst (fst r)) \<and>
        vp_charttime (fst (fst r)) - admission_dttm (snd r) \<le> 604800000000000 \<and>
        bt - admission_dttm (snd r) \<le> 604800000000000)"
      by (cases "vp_peep (fst (fst r))"; cases "vp_pf_ratio (fst (fst r))")
         (auto simp: ge_opt_def le_opt_def)
    finally show ?thesis using Some by simp
  qed
qed

lemma set_vent_with_bilateral:
  "r \<in> set (vent_with_bilateral bdf vp base) \<longleftrightarrow>
     fst (fst r) \<in> set vp \<and> snd (fst r) \<in> set bdf \<and> snd r \<in> set base \<and>
     bd_hadm_id (snd (fst r)) = vp_hadm_id (fst (fst r)) \<and>
     base_hadm_id (snd r) = vp_hadm_id (fst (fst r))"
  by (cases r) (auto simp: vent_with_bilateral_def set_merge_inner)

lemma no_spo2_extracted:
  "e \<in> set (vent_df icu ce) \<Longrightarrow> vd_itemid e \<notin> set SPO2_ITEMIDS"
  by (auto simp: vent_df_def all_itemids_def peep_items_def fio2_percent_items_def
      fio2_fraction_items_def pao2_items_def pf_ratio_items_def SPO2_ITEMIDS_def)

lemma vp_pf_ratio_is_pf:
  "v \<in> set (process_vent_params_vectorized df) \<Longrightarrow>
     vp_pf_ratio v =
       compute_pf_ratio (first_valid Pf_ratio (vp_hadm_id v, vp_charttime v) df)
         (first_valid Pao2 (vp_hadm_id v, vp_charttime v) df)
         (first_valid Fio2 (vp_hadm_id v, vp_charttime v) df) \<and>
     vp_peep v = first_valid Peep (vp_hadm_id v, vp_charttime v) df"
  by (auto simp: process_vent_params_vectorized_def)

text \<open>
  Claim C7, amended. In the Berlin-style variant the qualifying onset observations of an
  admission are exactly the ventilation observations joined to the admission's
  bilateral-infiltrates row and cohort row whose ratio is at most 300 with PEEP of at
  least 5 at the same observation, whose timestamp is at or after the
  bilateral-infiltrates time, at or after admission and within 168 hours of admission,
  the bilateral-infiltrates time itself lying within 168 hours of admission. The ratio
  tested is the P/F ratio: the charted value, or PaO2 divided by a positive FiO2 where
  none is charted. SpO2 readings are not extracted, so no S/F ratio is tested.
\<close>

theorem berlin_qualifying_measurements:
  "(r \<in> set (qualifying_measurements bdf vp base) \<longleftrightarrow>
      (fst (fst r) \<in> set vp \<and> snd (fst r) \<in> set bdf \<and> snd r \<in> set base \<and>
       bd_hadm_id (snd (fst r)) = vp_hadm_id (fst (fst r)) \<and>
       base_hadm_id (snd r) = vp_hadm_id (fst (fst r))) \<and>
      (\<exists>bt p pf. bilateral_infiltrates_time (snd (fst r)) = Some bt \<and>
         vp_peep (fst (fst r)) = Some p \<and> p \<ge> 5 \<and>
         vp_pf_ratio (fst (fst r)) = Some pf \<and> pf \<le> 300 \<and>
         bt \<le> vp_charttime (fst (fst r)) \<and>
         admission_dttm (snd r) \<le> vp_charttime (fst (fst r)) \<and>
         vp_charttime (fst (fst r)) - admission_dttm (snd r) \<le> 604800000000000 \<and>
         bt - admission_dttm (snd r) \<le> 604800000000000)) \<and>
   (\<forall>v \<in> set (process_vent_params_vectorized df).
      vp_pf_ratio v =
        compute_pf_ratio (first_valid Pf_ratio (vp_hadm_id v, vp_charttime v) df)
          (first_valid Pao2 (vp_hadm_id v, vp_charttime v) df)
          (first_valid Fio2 (vp_hadm_id v, vp_charttime v) df) \<and>
      vp_peep v = first_valid Peep (vp_hadm_id v, vp_charttime v) df) \<and>
   (\<forall>e \<in> set (vent_df icu ce). vd_itemid e \<notin> set SPO2_ITEMIDS)"
  using berlin_mask_iff[of r] set_vent_with_bilateral[of r bdf vp base]
    vp_pf_ratio_is_pf[of _ df] no_spo2_extracted[of _ icu ce]
  unfolding qualifying_measurements_def set_filter mem_Collect_eq
  by blast

lemmas berlin_items = all_itemids_def peep_items_def fio2_percent_items_def
      fio2_fraction_items_def pao2_items_def pf_ratio_items_def

lemma ex3_vent_df_pf:
  "vent_df [ex_stay 10 100 0 172800000000000] ex_pf_events = ex_pf_events"
  by (simp add: vent_df_def ex_pf_events_def ex_vd_def ex_stay_def berlin_items)

lemma ex3_vent_df_sf:
  "vent_df [ex_stay 10 100 0 172800000000000] ex_sf_only_events = [ex_vd 220339 6, ex_vd 220210 50]"
  by (simp add: vent_df_def ex_sf_only_events_def ex_vd_def ex_stay_def berlin_items)

lemma ex3_vent_param:
  "vent_param (ex_vd 220339 v) = (Peep, Some v)"
  "vent_param (ex_vd 220224 v) = (Pao2, Some v)"
  "vent_param (ex_vd 220210 v) = (Fio2, Some (v / 100))"
  by (simp_all add: vent_param_def classify_vent_def ex_vd_def berlin_items)

lemma ex_vd_key: "vd_hadm_id (ex_vd i v) = 10" "vd_charttime (ex_vd i v) = 3600000000000"
  by (simp_all add: ex_vd_def)

lemma ex3_process_pf:
  "process_vent_params_vectorized ex_pf_events = [ex_vp (Some 100) (Some 200)]"
  by (simp add: process_vent_params_vectorized_def pivot_df_def first_valid_def group_keys_def
      List.map_filter_simps ex_pf_events_def ex3_vent_param ex_vd_key compute_pf_ratio_def ex_vp_def)

lemma ex3_process_sf:
  "process_vent_params_vectorized [ex_vd 220339 6, ex_vd 220210 50] = [ex_vp None None]"
  by (simp add: process_vent_params_vectorized_def pivot_df_def first_valid_def group_keys_def
      List.map_filter_simps ex3_vent_param ex_vd_key compute_pf_ratio_def ex_vp_def)

lemma ex3_with_bilateral:
  "vent_with_bilateral (bilateral_infiltrates_df ex_detect ex_reports) [ex_vp pa pf]
      [ex_base_row (ex_stay 10 100 0 172800000000000)] =
     [((ex_vp pa pf,
        \<lparr>bd_hadm_id = 10, bilateral_infiltrates_time = Some 5000, bd_note_id = Some ''n2''\<rparr>),
       ex_base_row (ex_stay 10 100 0 172800000000000))]"
  unfolding ex2_bilateral_infiltrates_df
  by (simp add: vent_with_bilateral_def merge_inner_def ex_vp_def ex_base_row_simps)

text \<open>
  An observation with S/F ratio 180 and PEEP 6, one hour after admission and after the
  bilateral-infiltrates time, is not a qualifying observation: the SpO2 reading is not
  extracted and no PaO2 is charted, so there is no ratio to test.
\<close>

theorem berlin_sf_not_tested_counterexample:
  "qualifying_measurements (bilateral_infiltrates_df ex_detect ex_reports)
     (process_vent_params_vectorized (vent_df [ex_stay 10 100 0 172800000000000] ex_sf_only_events))
     [ex_base_row (ex_stay 10 100 0 172800000000000)] = [] \<and>
   map sf_ratio (sf_ratios_of [\<lparr>sp_key = (10 :: nat, 3600000000000 :: int), sp_spo2 = Some 90,
                                sp_fio2 = Some (50 / 100)\<rparr>]) = [180] \<and>
   (180 :: rat) \<le> 300"
  unfolding ex3_vent_df_sf ex3_process_sf qualifying_measurements_def ex3_with_bilateral
  by (simp add: berlin_mask_def le_opt_def ex_vp_def sf_ratios_of_def)

text \<open>
  With PaO2 100 and FiO2 50 percent the P/F ratio is 200 and the observation qualifies.
\<close>

theorem berlin_qualifying_measurements_witness:
  "qualifying_measurements (bilateral_infiltrates_df ex_detect ex_reports)
     (process_vent_params_vectorized (vent_df [ex_stay 10 100 0 172800000000000] ex_pf_events))
     [ex_base_row (ex_stay 10 100 0 172800000000000)] =
     [((ex_vp (Some 100) (Some 200),
        \<lparr>bd_hadm_id = 10, bilateral_infiltrates_time = Some 5000, bd_note_id = Some ''n2''\<rparr>),
       ex_base_row (ex_stay 10 100 0 172800000000000))] \<and>
   vp_pf_ratio (ex_vp (Some 100) (Some 200)) = compute_pf_ratio None (Some 100) (Some (1 / 2)) \<and>
   220277 \<notin> vd_itemid ` set (vent_df [ex_stay 10 100 0 172800000000000] ex_sf_only_events)"
proof -
  let ?bdf = "bilateral_infiltrates_df ex_detect ex_reports"
  let ?base = "[ex_base_row (ex_stay 10 100 0 172800000000000)]"
  let ?r = "((ex_vp (Some 100) (Some 200),
        \<lparr>bd_hadm_id = 10, bilateral_infiltrates_time = Some 5000, bd_note_id = Some ''n2''\<rparr>),
       ex_base_row (ex_stay 10 100 0 172800000000000))"
  note w = berlin_qualifying_measurements[of ?r ?bdf "[ex_vp (Some 100) (Some 200)]" ?base
      ex_pf_events "[ex_stay 10 100 0 172800000000000]" ex_sf_only_events]
  have mem: "fst (fst ?r) \<in> set [ex_vp (Some 100) (Some 200)] \<and> snd (fst ?r) \<in> set ?bdf \<and>
      snd ?r \<in> set ?base \<and> bd_hadm_id (snd (fst ?r)) = vp_hadm_id (fst (fst ?r)) \<and>
      base_hadm_id (snd ?r) = vp_hadm_id (fst (fst ?r))"
    by (simp add: ex2_bilateral_infiltrates_df ex_vp_def ex_base_row_simps)
  have crit: "\<exists>bt p pf. bilateral_infiltrates_time (snd (fst ?r)) = Some bt \<and>
         vp_peep (fst (fst ?r)) = Some p \<and> p \<ge> 5 \<and>
         vp_pf_ratio (fst (fst ?r)) = Some pf \<and> pf \<le> 300 \<and>
         bt \<le> vp_charttime (fst (fst ?r)) \<and>
         admission_dttm (snd ?r) \<le> vp_charttime (fst (fst ?r)) \<and>
         vp_charttime (fst (fst ?r)) - admission_dttm (snd ?r) \<le> 604800000000000 \<and>
         bt - admission_dttm (snd ?r) \<le> 604800000000000"
    by (simp add: ex_vp_def ex_base_row_simps)
  from w[THEN conjunct1] mem crit
  have q: "?r \<in> set (qualifying_measurements ?bdf [ex_vp (Some 100) (Some 200)] ?base)"
    by blast
  have 1: "qualifying_measurements ?bdf [ex_vp (Some 100) (Some 200)] ?base = [?r]"
    using q unfolding qualifying_measurements_def ex3_with_bilateral
    by (simp split: if_splits)
  have v: "ex_vp (Some 100) (Some 200) \<in> set (process_vent_params_vectorized ex_pf_events)"
    by (simp add: ex3_process_pf)
  from w[THEN conjunct2, THEN conjunct1, rule_format, OF v, THEN conjunct1]
  have 2: "vp_pf_ratio (ex_vp (Some 100) (Some 200)) = compute_pf_ratio None (Some 100) (Some (1 / 2))"
    by (simp add: first_valid_def List.map_filter_simps ex_pf_events_def ex3_vent_param ex_vd_key ex_vp_def)
  have e: "ex_vd 220210 50 \<in> set (vent_df [ex_stay 10 100 0 172800000000000] ex_sf_only_events)"
    by (simp add: ex3_vent_df_sf)
  have 3: "220277 \<notin> vd_itemid ` set (vent_df [ex_stay 10 100 0 172800000000000] ex_sf_only_events)"
    using w[THEN conjunct2, THEN conjunct2, rule_format, OF e]
    by (simp add: ex3_vent_df_sf ex_vd_def)
  from 1 2 3 show ?thesis
    unfolding ex3_vent_df_pf ex3_process_pf by (intro conjI)
qed

end
